theory Spec2Isabelle
  imports Complex_Main "HOL-Library.Product_Lexorder" "HOL-Library.List_Lexorder" "HOL-Library.Char_ord"
    "HOL-Library.Log_Nat"
begin

section \<open>Conventions of the embedding\<close>

text \<open>
  The repository is three JavaScript cloud functions: the BoQ calculator, the scheduled
  pricing-catalog updater and the on-demand pricing fetcher. The embedding follows the
  source function by function and keeps its names.

  \<^item> A JavaScript number is modelled as a \<^typ>\<open>real\<close>. In the calculator the arithmetic
    is exact: the rounding of IEEE-754 doubles, \<open>NaN\<close> and the infinities are not part
    of its model. The updater's conversion of a unit price is computed in double
    precision, every operation rounded to the nearest double.
  \<^item> A column or property that may be \<open>null\<close> or \<open>undefined\<close> and that the code tests
    before use is an \<^typ>\<open>'a option\<close>; one that the code reads without a guard is
    taken as present, except \<open>machine_type\<close>, whose absence is modelled because the
    price lookup dereferences it.
  \<^item> A thrown exception is a value of \<open>js_error\<close>; a \<open>try\<close>/\<open>catch\<close> is a case
    distinction on a sum.
  \<^item> The BigQuery store is external. Its tables are lists of rows, the SQL statements
    of the source are list functions over them, and whether a request to the store is
    rejected is an input of the model.
\<close>

datatype js_error = TypeError | StoreError

section \<open>The BoQ calculator\<close>

subsection \<open>Data\<close>

text \<open>A row of \<open>gcp_resource_specifications\<close>, with the columns the calculator reads.\<close>

record additional_disk =
  ad_disk_type :: string
  ad_size_gb :: real

record resource =
  project_id :: string
  resource_id :: string
  instance_name :: "string option"
  machine_type :: "string option"
  vcpu_count :: real
  memory_gb :: real
  disk_type :: string
  disk_size_gb :: real
  additional_disks :: "additional_disk list option"
  region :: string
  usage_duration_hours :: real
  usage_pattern :: "string option"
  pricing_model :: string
  gpu_type :: "string option"
  gpu_count :: "real option"
  external_ip :: "bool option"
  cost_center :: "string option"
  environment :: "string option"
  team :: "string option"

text \<open>
  A row of \<open>gcp_pricing_catalog\<close>: the columns that the updater writes and the
  calculator's queries read.
\<close>

record tier =
  start_usage_amount :: int
  tier_price_per_unit :: real
  tier_currency_code :: string

record catalog_entry =
  cat_sku_id :: string
  cat_sku_name :: string
  cat_service_name :: string
  cat_service_id :: string
  cat_resource_family :: string
  cat_resource_group :: string
  cat_usage_type :: string
  cat_region :: "string option"
  cat_currency_code :: string
  cat_pricing_unit :: string
  cat_price_per_unit :: real
  cat_tiered_rates :: "tier list option"
  cat_machine_family :: "string option"
  cat_machine_type :: "string option"
  cat_vcpu_count :: "int option"
  cat_memory_gb :: "real option"
  cat_disk_type :: "string option"
  cat_gpu_type :: "string option"
  cat_commitment_term :: "string option"
  cat_commitment_type :: "string option"
  cat_discount_percent :: real
  cat_network_tier :: "string option"
  cat_effective_date :: int
  cat_last_updated :: string
  cat_pricing_source :: string
  cat_is_active :: bool
  cat_validation_status :: string
  cat_description :: string
  cat_category :: string
  cat_tags :: "string list"

record pricing =
  compute_price_per_hour :: real
  memory_price_per_gb_hour :: real
  storage_price_per_gb_month :: real
  network_price_per_gb :: real
  gpu_price_per_hour :: real

record costs =
  compute :: real
  memory :: real
  storage :: real
  network :: real
  gpu :: real

record discounts =
  sud_percent :: real
  cud_percent :: real
  spot_percent :: real
  sud_amount :: real
  cud_amount :: real
  spot_amount :: real

record totals =
  subtotal :: real
  total_discount :: real
  total_cost :: real

record storage_cost =
  sc_disk_type :: string
  sc_size_gb :: real
  sc_price_per_gb_month :: real
  sc_cost_usd :: real

text \<open>
  A BoQ line item. The properties that the source copies from the resource and from the
  resolved prices carry the prefix \<open>li_\<close>; the others keep their names.
\<close>

record line_item =
  boq_id :: string
  calculation_timestamp :: string
  requested_by :: "string option"
  li_resource_id :: string
  li_project_id :: string
  li_instance_name :: "string option"
  li_machine_type :: "string option"
  li_vcpu_count :: real
  li_memory_gb :: real
  li_disk_type :: string
  li_disk_size_gb :: real
  li_region :: string
  li_pricing_model :: string
  li_usage_duration_hours :: real
  li_usage_pattern :: "string option"
  compute_cost_usd :: real
  memory_cost_usd :: real
  storage_cost_usd :: real
  network_cost_usd :: real
  gpu_cost_usd :: real
  li_compute_price_per_hour :: real
  li_memory_price_per_gb_hour :: real
  li_storage_price_per_gb_month :: real
  sustained_use_discount_percent :: real
  committed_use_discount_percent :: real
  spot_discount_percent :: real
  subtotal_usd :: real
  total_discount_usd :: real
  total_cost_usd :: real
  additional_storage_costs :: "storage_cost list"
  pricing_date :: string
  calculation_version :: string
  li_cost_center :: "string option"
  li_environment :: "string option"
  li_team :: "string option"

subsection \<open>Helper functions\<close>

definition getUsageType :: "string \<Rightarrow> string" where
  "getUsageType pricingModel =
     (if pricingModel = ''spot'' \<or> pricingModel = ''preemptible'' then ''Preemptible''
      else if pricingModel = ''cud-1-year'' \<or> pricingModel = ''cud-3-year'' then ''Committed''
      else ''OnDemand'')"

definition estimateComputePricing :: "resource \<Rightarrow> real" where
  "estimateComputePricing r =
     (let basePrice = 0.0475; memoryPrice = 0.0063
      in vcpu_count r * basePrice + memory_gb r * memoryPrice)"

definition getDefaultStoragePricing :: "string \<Rightarrow> real" where
  "getDefaultStoragePricing diskType =
     (if diskType = ''pd-ssd'' then 0.17
      else if diskType = ''pd-balanced'' then 0.1
      else 0.04)"

subsection \<open>The pricing catalog as the calculator queries it\<close>

text \<open>
  The three \<open>SELECT\<close> statements of \<open>fetchPricingForResource\<close>, with their parameters.
  A comparison of a nullable column with a parameter is true only when the column holds
  that value.
\<close>

datatype query =
  ComputeQuery string string string string
  | StorageQuery string string
  | GpuQuery "string option" string

definition region_ok :: "string \<Rightarrow> catalog_entry \<Rightarrow> bool" where
  "region_ok rg e = (cat_region e = Some rg \<or> cat_region e = None)"

definition region_rank :: "string \<Rightarrow> catalog_entry \<Rightarrow> nat" where
  "region_rank rg e = (if cat_region e = Some rg then 1 else 2)"

fun matches :: "query \<Rightarrow> catalog_entry \<Rightarrow> bool" where
  "matches (ComputeQuery machineType machineFamily rg usageType) e =
     (cat_service_name e = ''Compute Engine'' \<and> cat_category e = ''compute''
      \<and> (cat_machine_type e = Some machineType \<or> cat_machine_family e = Some machineFamily)
      \<and> region_ok rg e \<and> cat_usage_type e = usageType \<and> cat_is_active e)"
| "matches (StorageQuery diskType rg) e =
     (cat_service_name e = ''Compute Engine'' \<and> cat_category e = ''storage''
      \<and> cat_disk_type e = Some diskType \<and> region_ok rg e \<and> cat_is_active e)"
| "matches (GpuQuery gpuType rg) e =
     (cat_service_name e = ''Compute Engine'' \<and> cat_category e = ''gpu''
      \<and> gpuType \<noteq> None \<and> cat_gpu_type e = gpuType \<and> region_ok rg e \<and> cat_is_active e)"

fun rank :: "query \<Rightarrow> catalog_entry \<Rightarrow> nat \<times> nat" where
  "rank (ComputeQuery machineType machineFamily rg usageType) e =
     (if cat_machine_type e = Some machineType then 1 else 2, region_rank rg e)"
| "rank (StorageQuery diskType rg) e = (1, region_rank rg e)"
| "rank (GpuQuery gpuType rg) e = (1, region_rank rg e)"

text \<open>
  \<open>ORDER BY ... LIMIT 1\<close>: the matching rows, sorted by rank, cut to one row. SQL leaves
  the order of rows of equal rank open; the stable sort takes the first of them in the
  table.
\<close>

definition select_rows :: "catalog_entry list \<Rightarrow> query \<Rightarrow> catalog_entry list" where
  "select_rows tbl q = take 1 (sort_key (rank q) (filter (matches q) tbl))"

text \<open>
  The store as the calculator sees it: the table of resource specifications and whether
  the query for them is rejected, the catalog table and which catalog queries are
  rejected, and whether the insert of the results is rejected.
\<close>

record bigquery =
  resource_specs :: "resource list"
  specs_rejected :: bool
  catalog :: "catalog_entry list"
  rejects :: "query \<Rightarrow> bool"
  insert_rejected :: bool

definition run_query :: "bigquery \<Rightarrow> query \<Rightarrow> js_error + catalog_entry list" where
  "run_query bq q = (if rejects bq q then Inl StoreError else Inr (select_rows (catalog bq) q))"

subsection \<open>Price resolution\<close>

definition initial_pricing :: pricing where
  "initial_pricing =
     \<lparr>compute_price_per_hour = 0, memory_price_per_gb_hour = 0,
      storage_price_per_gb_month = 0, network_price_per_gb = 0, gpu_price_per_hour = 0\<rparr>"

text \<open>\<open>machine_type.split("-")[0]\<close>: the text before the first dash.\<close>

definition split_first :: "string \<Rightarrow> string" where
  "split_first s = takeWhile (\<lambda>c. c \<noteq> CHR ''-'') s"

text \<open>
  The body of the \<open>try\<close> block. It returns the pricing object, or the exception
  together with the pricing object as it stands when the exception is thrown.
\<close>

definition fetchPricing_try :: "bigquery \<Rightarrow> resource \<Rightarrow> (js_error \<times> pricing) + pricing" where
  "fetchPricing_try bq r =
     (let p0 = initial_pricing; usageType = getUsageType (pricing_model r) in
      case machine_type r of
        None \<Rightarrow> Inl (TypeError, p0)
      | Some mt \<Rightarrow>
          (case run_query bq (ComputeQuery mt (split_first mt) (region r) usageType) of
             Inl err \<Rightarrow> Inl (err, p0)
           | Inr computeRows \<Rightarrow>
               (let p1 = p0\<lparr>compute_price_per_hour :=
                            (case computeRows of
                               row # _ \<Rightarrow> cat_price_per_unit row
                             | [] \<Rightarrow> estimateComputePricing r)\<rparr> in
                case run_query bq (StorageQuery (disk_type r) (region r)) of
                  Inl err \<Rightarrow> Inl (err, p1)
                | Inr storageRows \<Rightarrow>
                    (let p2 = p1\<lparr>storage_price_per_gb_month :=
                                 (case storageRows of
                                    row # _ \<Rightarrow> cat_price_per_unit row
                                  | [] \<Rightarrow> getDefaultStoragePricing (disk_type r))\<rparr> in
                     case gpu_count r of
                       None \<Rightarrow> Inr p2
                     | Some n \<Rightarrow>
                         if n \<noteq> 0 \<and> n > 0 then
                           (case run_query bq (GpuQuery (gpu_type r) (region r)) of
                              Inl err \<Rightarrow> Inl (err, p2)
                            | Inr gpuRows \<Rightarrow>
                                (case gpuRows of
                                   row # _ \<Rightarrow> Inr (p2\<lparr>gpu_price_per_hour := cat_price_per_unit row\<rparr>)
                                 | [] \<Rightarrow> Inr p2))
                         else Inr p2))))"

definition fetchPricingForResource :: "bigquery \<Rightarrow> resource \<Rightarrow> pricing" where
  "fetchPricingForResource bq r =
     (case fetchPricing_try bq r of
        Inr p \<Rightarrow> p
      | Inl (err, p) \<Rightarrow>
          p\<lparr>compute_price_per_hour := estimateComputePricing r,
            storage_price_per_gb_month := getDefaultStoragePricing (disk_type r)\<rparr>)"

subsection \<open>Costs, discounts and totals\<close>

definition calculateBaseCosts :: "resource \<Rightarrow> pricing \<Rightarrow> costs" where
  "calculateBaseCosts r p =
     (let c0 = \<lparr>compute = 0, memory = 0, storage = 0, network = 0, gpu = 0\<rparr>;
          c1 = c0\<lparr>compute := compute_price_per_hour p * usage_duration_hours r\<rparr>;
          hoursPerMonth = 730;
          storageMonths = usage_duration_hours r / hoursPerMonth;
          c2 = c1\<lparr>storage := storage_price_per_gb_month p * disk_size_gb r * storageMonths\<rparr>;
          c3 = (case gpu_count r of
                  None \<Rightarrow> c2
                | Some n \<Rightarrow>
                    if n \<noteq> 0 \<and> n > 0
                    then c2\<lparr>gpu := gpu_price_per_hour p * n * usage_duration_hours r\<rparr>
                    else c2)
      in if external_ip r = Some True
         then c3\<lparr>network := 0.004 * usage_duration_hours r\<rparr>
         else c3)"

definition no_discounts :: discounts where
  "no_discounts =
     \<lparr>sud_percent = 0, cud_percent = 0, spot_percent = 0,
      sud_amount = 0, cud_amount = 0, spot_amount = 0\<rparr>"

definition calculateDiscounts :: "resource \<Rightarrow> costs \<Rightarrow> discounts" where
  "calculateDiscounts r c =
     (let d = no_discounts; totalComputeCost = compute c + gpu c; pm = pricing_model r in
      if pm = ''spot'' \<or> pm = ''preemptible'' then
        d\<lparr>spot_percent := 60, spot_amount := totalComputeCost * (60 / 100)\<rparr>
      else if pm = ''cud-1-year'' then
        d\<lparr>cud_percent := 25, cud_amount := totalComputeCost * (25 / 100)\<rparr>
      else if pm = ''cud-3-year'' then
        d\<lparr>cud_percent := 37, cud_amount := totalComputeCost * (37 / 100)\<rparr>
      else if usage_duration_hours r > 183 \<and> usage_pattern r = Some ''continuous'' then
        (let pct = min 30 (of_int \<lfloor>(usage_duration_hours r - 183) / 73\<rfloor> * 5)
         in d\<lparr>sud_percent := pct, sud_amount := totalComputeCost * (pct / 100)\<rparr>)
      else d)"

definition calculateTotals :: "costs \<Rightarrow> discounts \<Rightarrow> totals" where
  "calculateTotals c d =
     (let sub = compute c + memory c + storage c + network c + gpu c;
          totalDiscount = sud_amount d + cud_amount d + spot_amount d;
          totalCost = sub - totalDiscount
      in \<lparr>subtotal = sub, total_discount = totalDiscount, total_cost = max 0 totalCost\<rparr>)"

definition calculateAdditionalStorageCosts :: "resource \<Rightarrow> pricing \<Rightarrow> storage_cost list" where
  "calculateAdditionalStorageCosts r p =
     (case additional_disks r of
        None \<Rightarrow> []
      | Some disks \<Rightarrow>
          (let hoursPerMonth = 730; storageMonths = usage_duration_hours r / hoursPerMonth
           in map (\<lambda>disk.
                \<lparr>sc_disk_type = ad_disk_type disk, sc_size_gb = ad_size_gb disk,
                 sc_price_per_gb_month = getDefaultStoragePricing (ad_disk_type disk),
                 sc_cost_usd =
                   getDefaultStoragePricing (ad_disk_type disk) * ad_size_gb disk * storageMonths\<rparr>)
                disks))"

subsection \<open>One resource\<close>

text \<open>
  The clock and the identifier generator are inputs: \<open>now\<close> is the text of
  \<open>new Date().toISOString()\<close>, and \<open>pricing_date\<close> is its part before the \<open>T\<close>.
\<close>

definition iso_date :: "string \<Rightarrow> string" where
  "iso_date now = takeWhile (\<lambda>c. c \<noteq> CHR ''T'') now"

definition calculateResourceBoQ ::
  "bigquery \<Rightarrow> string \<Rightarrow> resource \<Rightarrow> string \<Rightarrow> string option \<Rightarrow> line_item" where
  "calculateResourceBoQ bq now r boqId requestedBy =
     (let p = fetchPricingForResource bq r;
          c = calculateBaseCosts r p;
          d = calculateDiscounts r c;
          t = calculateTotals c d
      in \<lparr>boq_id = boqId,
          calculation_timestamp = now,
          requested_by = requestedBy,
          li_resource_id = resource_id r,
          li_project_id = project_id r,
          li_instance_name = instance_name r,
          li_machine_type = machine_type r,
          li_vcpu_count = vcpu_count r,
          li_memory_gb = memory_gb r,
          li_disk_type = disk_type r,
          li_disk_size_gb = disk_size_gb r,
          li_region = region r,
          li_pricing_model = pricing_model r,
          li_usage_duration_hours = usage_duration_hours r,
          li_usage_pattern = usage_pattern r,
          compute_cost_usd = compute c,
          memory_cost_usd = memory c,
          storage_cost_usd = storage c,
          network_cost_usd = network c,
          gpu_cost_usd = gpu c,
          li_compute_price_per_hour = compute_price_per_hour p,
          li_memory_price_per_gb_hour = memory_price_per_gb_hour p,
          li_storage_price_per_gb_month = storage_price_per_gb_month p,
          sustained_use_discount_percent = sud_percent d,
          committed_use_discount_percent = cud_percent d,
          spot_discount_percent = spot_percent d,
          subtotal_usd = subtotal t,
          total_discount_usd = total_discount t,
          total_cost_usd = total_cost t,
          additional_storage_costs = calculateAdditionalStorageCosts r p,
          pricing_date = iso_date now,
          calculation_version = ''1.0'',
          li_cost_center = cost_center r,
          li_environment = environment r,
          li_team = team r\<rparr>)"

subsection \<open>Summary\<close>

record summary =
  total_resources :: nat
  summary_total_cost_usd :: real
  summary_total_discount_usd :: real
  average_cost_per_resource :: real
  cost_by_project :: "string \<rightharpoonup> real"
  cost_by_region :: "string \<rightharpoonup> real"

text \<open>\<open>obj[k] = (obj[k] || 0) + v\<close> on an object used as a dictionary.\<close>

definition add_cost :: "(string \<rightharpoonup> real) \<Rightarrow> string \<Rightarrow> real \<Rightarrow> (string \<rightharpoonup> real)" where
  "add_cost m k v = m(k \<mapsto> (case m k of None \<Rightarrow> 0 | Some x \<Rightarrow> x) + v)"

text \<open>The empty object \<open>{}\<close> that the source returns for no results is \<open>None\<close>.\<close>

definition calculateSummary :: "line_item list \<Rightarrow> summary option" where
  "calculateSummary rs =
     (if length rs = 0 then None
      else
        (let totalCost = foldl (\<lambda>s r. s + total_cost_usd r) 0 rs;
             totalDiscount = foldl (\<lambda>s r. s + total_discount_usd r) 0 rs;
             avgCost = totalCost / real (length rs);
             costByProject = foldl (\<lambda>m r. add_cost m (li_project_id r) (total_cost_usd r)) Map.empty rs;
             costByRegion = foldl (\<lambda>m r. add_cost m (li_region r) (total_cost_usd r)) Map.empty rs
         in Some \<lparr>total_resources = length rs,
                  summary_total_cost_usd = totalCost,
                  summary_total_discount_usd = totalDiscount,
                  average_cost_per_resource = avgCost,
                  cost_by_project = costByProject,
                  cost_by_region = costByRegion\<rparr>))"

subsection \<open>The HTTP function \<open>calculateBoQ\<close>\<close>

record request =
  projectIds :: "string list option"
  resourceIds :: "string list option"
  regions :: "string list option"
  pricingModels :: "string list option"
  requestedBy :: "string option"

text \<open>
  A filter contributes its condition \<open>column IN UNNEST(@list)\<close> only when the list is
  given and not empty.
\<close>

definition in_filter :: "string list option \<Rightarrow> string \<Rightarrow> bool" where
  "in_filter f v = (case f of None \<Rightarrow> True | Some xs \<Rightarrow> if length xs > 0 then v \<in> set xs else True)"

definition fetchResourceSpecifications :: "bigquery \<Rightarrow> request \<Rightarrow> js_error + resource list" where
  "fetchResourceSpecifications bq filters =
     (if specs_rejected bq then Inl StoreError
      else Inr (sort_key (\<lambda>r. (project_id r, resource_id r))
             (filter (\<lambda>r. in_filter (projectIds filters) (project_id r)
                        \<and> in_filter (resourceIds filters) (resource_id r)
                        \<and> in_filter (regions filters) (region r)
                        \<and> in_filter (pricingModels filters) (pricing_model r))
                (resource_specs bq))))"

text \<open>
  The loop over the resources. Each iteration runs its step inside \<open>try\<close>/\<open>catch\<close>:
  a result is pushed, an exception is logged and the loop goes on.
\<close>

fun boq_loop :: "(resource \<Rightarrow> js_error + line_item) \<Rightarrow> resource list \<Rightarrow> line_item list \<Rightarrow> line_item list" where
  "boq_loop step [] boqResults = boqResults"
| "boq_loop step (r # rs) boqResults =
     (case step r of
        Inr boqResult \<Rightarrow> boq_loop step rs (boqResults @ [boqResult])
      | Inl err \<Rightarrow> boq_loop step rs boqResults)"

text \<open>
  \<open>saveBoQResults\<close> logs and rethrows a rejected insert; otherwise the rows are in the
  results table. Whether the store accepts the rows is an input. The schema of the
  results table declares \<open>machine_type\<close> as \<open>NOT NULL\<close>, so a store that enforces it
  rejects a batch that holds a line item without machine type.
\<close>

definition saveBoQResults :: "bigquery \<Rightarrow> line_item list \<Rightarrow> js_error + line_item list" where
  "saveBoQResults bq rs = (if insert_rejected bq then Inl StoreError else Inr rs)"

record boq_response =
  success :: bool
  resp_boq_id :: string
  resources_processed :: nat
  resp_summary :: "summary option"
  results :: "line_item list"
  resp_timestamp :: string

datatype http_response =
  Status200 boq_response
  | Status404
  | Status500 js_error

text \<open>
  The handler returns the HTTP response and the rows it has inserted into the results
  table. In the model the step of the loop, \<open>calculateResourceBoQ\<close>, always returns:
  every exception that its price lookup can raise is caught inside
  \<open>fetchPricingForResource\<close>.
\<close>

definition calculateBoQ :: "bigquery \<Rightarrow> string \<Rightarrow> string \<Rightarrow> request \<Rightarrow> http_response \<times> line_item list" where
  "calculateBoQ bq now uuid req =
     (let boqId = uuid in
      case fetchResourceSpecifications bq req of
        Inl err \<Rightarrow> (Status500 err, [])
      | Inr resourceSpecs \<Rightarrow>
          if length resourceSpecs = 0 then (Status404, [])
          else
            (let boqResults =
                   boq_loop (\<lambda>r. Inr (calculateResourceBoQ bq now r boqId (requestedBy req)))
                     resourceSpecs [];
                 saved = (if length boqResults > 0 then saveBoQResults bq boqResults else Inr [])
             in case saved of
                  Inl err \<Rightarrow> (Status500 err, [])
                | Inr rows \<Rightarrow>
                    (Status200
                       \<lparr>success = True, resp_boq_id = boqId,
                        resources_processed = length boqResults,
                        resp_summary = calculateSummary boqResults,
                        results = boqResults, resp_timestamp = now\<rparr>,
                     rows)))"

section \<open>The pricing-catalog updater\<close>

subsection \<open>Strings\<close>

text \<open>
  Descriptions are ASCII texts. \<open>toLowerCase\<close> and \<open>toUpperCase\<close> change the 26 letters
  and nothing else; \<open>js_includes s k\<close> is \<open>s.includes(k)\<close>.
\<close>

definition lower_char :: "char \<Rightarrow> char" where
  "lower_char c =
     (case map_of (zip ''ABCDEFGHIJKLMNOPQRSTUVWXYZ'' ''abcdefghijklmnopqrstuvwxyz'') c of
        Some d \<Rightarrow> d
      | None \<Rightarrow> c)"

definition upper_char :: "char \<Rightarrow> char" where
  "upper_char c =
     (case map_of (zip ''abcdefghijklmnopqrstuvwxyz'' ''ABCDEFGHIJKLMNOPQRSTUVWXYZ'') c of
        Some d \<Rightarrow> d
      | None \<Rightarrow> c)"

definition toLowerCase :: "string \<Rightarrow> string" where
  "toLowerCase s = map lower_char s"

definition toUpperCase :: "string \<Rightarrow> string" where
  "toUpperCase s = map upper_char s"

fun starts_with :: "string \<Rightarrow> string \<Rightarrow> bool" where
  "starts_with [] s = True"
| "starts_with (k # ks) [] = False"
| "starts_with (k # ks) (c # cs) = (k = c \<and> starts_with ks cs)"

fun js_includes :: "string \<Rightarrow> string \<Rightarrow> bool" where
  "js_includes [] k = (k = [])"
| "js_includes (c # cs) k = (starts_with k (c # cs) \<or> js_includes cs k)"

subsection \<open>The regular expressions of \<open>extractMachineInfo\<close>\<close>

text \<open>
  \<open>String.match\<close> returns the leftmost match. Each expression has a function that
  matches it at the start of a text, and \<open>leftmost\<close> tries that function at every
  position from the left. The character classes are \<open>\d\<close>, \<open>\s\<close> (its ASCII members),
  \<open>[a-z0-9]\<close> and \<open>[a-z0-9-]\<close>.
\<close>

definition is_digit :: "char \<Rightarrow> bool" where
  "is_digit c = (c \<in> set ''0123456789'')"

definition is_space :: "char \<Rightarrow> bool" where
  "is_space c = (c \<in> set [CHR '' '', CHR 0x09, CHR 0x0A, CHR 0x0B, CHR 0x0C, CHR 0x0D])"

definition is_alnum :: "char \<Rightarrow> bool" where
  "is_alnum c = (c \<in> set ''abcdefghijklmnopqrstuvwxyz0123456789'')"

definition is_type_char :: "char \<Rightarrow> bool" where
  "is_type_char c = (is_alnum c \<or> c = CHR ''-'')"

fun leftmost :: "(string \<Rightarrow> 'a option) \<Rightarrow> string \<Rightarrow> 'a option" where
  "leftmost here [] = here []"
| "leftmost here (c # cs) =
     (case here (c # cs) of Some m \<Rightarrow> Some m | None \<Rightarrow> leftmost here cs)"

text \<open>\<open>/(n1|n2|...)-/\<close>: the first alternative that is followed by a dash; group 1.\<close>

definition family_here :: "string list \<Rightarrow> string \<Rightarrow> string option" where
  "family_here families s = find (\<lambda>f. starts_with (f @ ''-'') s) families"

text \<open>\<open>/(n1|n2|...)-[a-z0-9-]+/\<close>: the whole match.\<close>

definition machine_here :: "string list \<Rightarrow> string \<Rightarrow> string option" where
  "machine_here families s =
     (case find (\<lambda>f. starts_with (f @ ''-'') s
                     \<and> takeWhile is_type_char (drop (length f + 1) s) \<noteq> []) families of
        None \<Rightarrow> None
      | Some f \<Rightarrow> Some (f @ ''-'' @ takeWhile is_type_char (drop (length f + 1) s)))"

text \<open>\<open>/(\d+)\s*vcpu/\<close>: group 1, the digits.\<close>

definition vcpu_here :: "string \<Rightarrow> string option" where
  "vcpu_here s =
     (let ds = takeWhile is_digit s
      in if ds \<noteq> [] \<and> starts_with ''vcpu'' (dropWhile is_space (dropWhile is_digit s))
         then Some ds else None)"

text \<open>
  \<open>/(\d+(?:\.\d+)?)\s*gb/\<close>: group 1, the digits with the optional fraction. When a dot
  follows the digits, the rest can only match through the fraction.
\<close>

definition memory_here :: "string \<Rightarrow> string option" where
  "memory_here s =
     (let ds = takeWhile is_digit s; r1 = dropWhile is_digit s
      in if ds = [] then None
         else
           (case r1 of
              [] \<Rightarrow> None
            | c # r2 \<Rightarrow>
                if c = CHR ''.'' then
                  (let fs = takeWhile is_digit r2
                   in if fs \<noteq> [] \<and> starts_with ''gb'' (dropWhile is_space (dropWhile is_digit r2))
                      then Some (ds @ ''.'' @ fs) else None)
                else if starts_with ''gb'' (dropWhile is_space r1) then Some ds
                else None))"

text \<open>\<open>/(nvidia|tesla)[-\s]([a-z0-9]+)/\<close>: groups 1 and 2.\<close>

definition gpu_here :: "string \<Rightarrow> (string \<times> string) option" where
  "gpu_here s =
     (case find (\<lambda>v. starts_with v s
                     \<and> (case drop (length v) s of
                           [] \<Rightarrow> False
                         | c # r \<Rightarrow> (c = CHR ''-'' \<or> is_space c) \<and> takeWhile is_alnum r \<noteq> []))
             [''nvidia'', ''tesla''] of
        None \<Rightarrow> None
      | Some v \<Rightarrow> Some (v, takeWhile is_alnum (drop (length v + 1) s)))"

text \<open>\<open>parseInt\<close> and \<open>parseFloat\<close> on the digit texts that the expressions capture.\<close>

definition digit_value :: "char \<Rightarrow> nat" where
  "digit_value c = length (takeWhile (\<lambda>d. d \<noteq> c) ''0123456789'')"

definition parse_digits :: "string \<Rightarrow> nat" where
  "parse_digits ds = foldl (\<lambda>n c. 10 * n + digit_value c) 0 ds"

definition parseFloat :: "string \<Rightarrow> real" where
  "parseFloat t =
     (let ds = takeWhile is_digit t; fs = drop (length ds + 1) t
      in real (parse_digits ds) + real (parse_digits fs) / 10 ^ length fs)"

subsection \<open>\<open>extractMachineInfo\<close>\<close>

record machine_info =
  resourceFamily :: string
  resourceGroup :: string
  usageType :: string
  machineFamily :: "string option"
  machineType :: "string option"
  vcpuCount :: "int option"
  memoryGb :: "real option"
  diskType :: "string option"
  gpuType :: "string option"
  commitmentTerm :: "string option"
  commitmentType :: "string option"
  discountPercent :: real
  networkTier :: "string option"
  category :: string
  tags :: "string list"

definition initial_info :: machine_info where
  "initial_info =
     \<lparr>resourceFamily = ''Compute'', resourceGroup = ''Standard'', usageType = ''OnDemand'',
      machineFamily = None, machineType = None, vcpuCount = None, memoryGb = None,
      diskType = None, gpuType = None, commitmentTerm = None, commitmentType = None,
      discountPercent = 0, networkTier = None, category = ''compute'', tags = []\<rparr>"

definition updater_families :: "string list" where
  "updater_families =
     [''n1'', ''n2'', ''n2d'', ''e2'', ''c2'', ''c2d'', ''m1'', ''m2'', ''f1'', ''g1'', ''a2'',
      ''t2d'', ''t2a'']"

text \<open>
  The function is a sequence of blocks, each of which reads the lower-cased description
  and updates the \<open>info\<close> object. The blocks are functions of their own, in the order of
  the source.
\<close>

definition extract_family_and_type :: "string \<Rightarrow> machine_info \<Rightarrow> machine_info" where
  "extract_family_and_type desc info =
     (let info1 =
            (case leftmost (family_here updater_families) desc of
               None \<Rightarrow> info
             | Some f \<Rightarrow>
                 info\<lparr>machineFamily := Some f, resourceGroup := toUpperCase f @ ''Standard'',
                      tags := tags info @ [''family:'' @ f]\<rparr>)
      in case leftmost (machine_here updater_families) desc of
           None \<Rightarrow> info1
         | Some m \<Rightarrow> info1\<lparr>machineType := Some m\<rparr>)"

definition extract_vcpu :: "string \<Rightarrow> machine_info \<Rightarrow> machine_info" where
  "extract_vcpu desc info =
     (case leftmost vcpu_here desc of
        None \<Rightarrow> info
      | Some ds \<Rightarrow> info\<lparr>vcpuCount := Some (int (parse_digits ds))\<rparr>)"

definition extract_memory :: "string \<Rightarrow> machine_info \<Rightarrow> machine_info" where
  "extract_memory desc info =
     (case leftmost memory_here desc of
        None \<Rightarrow> info
      | Some t \<Rightarrow> info\<lparr>memoryGb := Some (parseFloat t)\<rparr>)"

definition detect_categories :: "string \<Rightarrow> machine_info \<Rightarrow> machine_info" where
  "detect_categories desc info =
     (if js_includes desc ''ssd'' then
        info\<lparr>diskType := Some ''pd-ssd'', category := ''storage'',
             tags := tags info @ [''storage:ssd'']\<rparr>
      else if js_includes desc ''balanced'' then
        info\<lparr>diskType := Some ''pd-balanced'', category := ''storage'',
             tags := tags info @ [''storage:balanced'']\<rparr>
      else if js_includes desc ''standard'' then
        (if js_includes desc ''disk'' \<or> js_includes desc ''storage'' then
           info\<lparr>diskType := Some ''pd-standard'', category := ''storage'',
                tags := tags info @ [''storage:standard'']\<rparr>
         else info)
      else info)"

definition detect_gpu :: "string \<Rightarrow> machine_info \<Rightarrow> machine_info" where
  "detect_gpu desc info =
     (if js_includes desc ''gpu'' \<or> js_includes desc ''nvidia'' \<or> js_includes desc ''tesla'' then
        (let info1 = info\<lparr>category := ''gpu''\<rparr>
         in case leftmost gpu_here desc of
              None \<Rightarrow> info1
            | Some (v, m) \<Rightarrow>
                info1\<lparr>gpuType := Some (v @ ''-'' @ m),
                       tags := tags info1 @ [''gpu:'' @ v @ ''-'' @ m]\<rparr>)
      else info)"

definition detect_usage_types :: "string \<Rightarrow> machine_info \<Rightarrow> machine_info" where
  "detect_usage_types desc info =
     (if js_includes desc ''preemptible'' \<or> js_includes desc ''spot'' then
        info\<lparr>usageType := ''Preemptible'', tags := tags info @ [''usage:preemptible'']\<rparr>
      else info)"

definition detect_commitment_terms :: "string \<Rightarrow> machine_info \<Rightarrow> machine_info" where
  "detect_commitment_terms desc info =
     (if js_includes desc ''1 year'' \<or> js_includes desc ''1-year'' then
        info\<lparr>commitmentTerm := Some ''1-year'', usageType := ''Committed'',
             commitmentType := Some ''resource'', discountPercent := 25,
             tags := tags info @ [''commitment:1-year'']\<rparr>
      else if js_includes desc ''3 year'' \<or> js_includes desc ''3-year'' then
        info\<lparr>commitmentTerm := Some ''3-year'', usageType := ''Committed'',
             commitmentType := Some ''resource'', discountPercent := 37,
             tags := tags info @ [''commitment:3-year'']\<rparr>
      else info)"

definition detect_network_tiers :: "string \<Rightarrow> machine_info \<Rightarrow> machine_info" where
  "detect_network_tiers desc info =
     (if js_includes desc ''premium'' then
        info\<lparr>networkTier := Some ''premium'', category := ''network'',
             tags := tags info @ [''network:premium'']\<rparr>
      else if js_includes desc ''standard'' then
        (if js_includes desc ''network'' \<or> js_includes desc ''egress'' \<or> js_includes desc ''ip'' then
           info\<lparr>networkTier := Some ''standard'', category := ''network'',
                tags := tags info @ [''network:standard'']\<rparr>
         else info)
      else info)"

definition detect_scope :: "string \<Rightarrow> machine_info \<Rightarrow> machine_info" where
  "detect_scope desc info =
     (if js_includes desc ''regional'' then info\<lparr>tags := tags info @ [''scope:regional'']\<rparr>
      else if js_includes desc ''global'' then info\<lparr>tags := tags info @ [''scope:global'']\<rparr>
      else info)"

definition extractMachineInfo :: "string \<Rightarrow> machine_info" where
  "extractMachineInfo description =
     (let desc = toLowerCase description
      in detect_scope desc
           (detect_network_tiers desc
              (detect_commitment_terms desc
                 (detect_usage_types desc
                    (detect_gpu desc
                       (detect_categories desc
                          (extract_memory desc
                             (extract_vcpu desc
                                (extract_family_and_type desc initial_info)))))))))"

subsection \<open>SKUs of the billing feed\<close>

text \<open>
  A unit price is a whole part \<open>units\<close> and a fraction \<open>nanos\<close> in billionths, both
  integers. Properties that the code defaults with \<open>||\<close> are options.
\<close>

record money =
  currencyCode :: "string option"
  units :: "int option"
  nanos :: "int option"

record tiered_rate =
  startUsageAmount :: "int option"
  unitPrice :: money

record pricing_expression =
  usageUnit :: string
  tieredRates :: "tiered_rate list option"

record pricing_info =
  pricingExpression :: pricing_expression

record sku =
  skuId :: string
  description :: string
  serviceRegions :: "string list option"
  pricingInfo :: "pricing_info list option"

text \<open>\<open>parseInt(x || 0)\<close> for an integer property, and \<open>x || "USD"\<close> for a text.\<close>

definition int_or_zero :: "int option \<Rightarrow> int" where
  "int_or_zero x = (case x of None \<Rightarrow> 0 | Some n \<Rightarrow> if n = 0 then 0 else n)"

definition text_or_usd :: "string option \<Rightarrow> string" where
  "text_or_usd x = (case x of None \<Rightarrow> ''USD'' | Some s \<Rightarrow> if s = [] then ''USD'' else s)"

subsection \<open>Double-precision numbers\<close>

text \<open>
  The conversion of a unit price is computed in IEEE-754 double precision, as the
  JavaScript engine does. A finite double is modelled by the real number it denotes, and
  \<open>round_double\<close> maps a real to the nearest double, a tie going to the even
  significand: a double is \<open>k * 2 ^ (e - 52)\<close> with an integer \<open>k\<close> of at most 53 bits and
  an exponent \<open>e\<close> of at least \<open>-1022\<close> (the subnormal numbers included). The overflow to
  an infinity, above \<open>2 ^ 1024\<close>, is not modelled: \<open>units\<close> is a 64-bit and \<open>nanos\<close> a
  32-bit integer in the feed, far below it.

  \<open>pow2 e\<close> is \<open>2\<close> to the integer power \<open>e\<close>, and \<open>exponent_of x\<close>, for a positive \<open>x\<close>,
  the integer \<open>e\<close> with \<open>2 ^ e \<le> x < 2 ^ (e + 1)\<close>.
\<close>

definition pow2 :: "int \<Rightarrow> real" where
  "pow2 e = (if 0 \<le> e then 2 ^ nat e else 1 / 2 ^ nat (- e))"

definition exponent_of :: "real \<Rightarrow> int" where
  "exponent_of x = (if 1 \<le> x then bitlen \<lfloor>x\<rfloor> - 1 else - bitlen (\<lceil>1 / x\<rceil> - 1))"

text \<open>Rounding to the nearest integer, a tie going to the even one.\<close>

definition ties_even :: "real \<Rightarrow> int" where
  "ties_even m =
     (let f = \<lfloor>m\<rfloor>; d = m - of_int f
      in if d < 1 / 2 then f else if 1 / 2 < d then f + 1 else if even f then f else f + 1)"

definition round_double :: "real \<Rightarrow> real" where
  "round_double x =
     (if x = 0 then 0
      else
        (let a = \<bar>x\<bar>; e = max (exponent_of a) (- 1022); ulp = pow2 (e - 52)
         in sgn x * of_int (ties_even (a / ulp)) * ulp))"

text \<open>
  \<open>parseInt\<close> of an integer property gives the double nearest to the integer, whether the
  client library delivers the property as a number, as a decimal text or as a \<open>Long\<close>
  object; \<open>/\<close> and \<open>+\<close> on doubles give the double nearest to the exact quotient and sum.
\<close>

definition js_number :: "int \<Rightarrow> real" where
  "js_number n = round_double (of_int n)"

definition js_div :: "real \<Rightarrow> real \<Rightarrow> real" where
  "js_div a b = round_double (a / b)"

definition js_add :: "real \<Rightarrow> real \<Rightarrow> real" where
  "js_add a b = round_double (a + b)"

subsection \<open>\<open>isRelevantSku\<close> and \<open>extractPricingInfo\<close>\<close>

definition isRelevantSku :: "sku \<Rightarrow> bool" where
  "isRelevantSku s =
     (let desc = toLowerCase (description s);
          relevantKeywords =
            [''instance'', ''vm'', ''virtual machine'', ''disk'', ''storage'', ''persistent'',
             ''gpu'', ''nvidia'', ''tesla'', ''ip address'', ''network'', ''memory'', ''cpu'',
             ''core''];
          excludeKeywords =
            [''license'', ''support'', ''premium support'', ''api'', ''monitoring'', ''logging'',
             ''backup'', ''snapshot transfer''];
          hasRelevantKeyword = list_ex (\<lambda>keyword. js_includes desc keyword) relevantKeywords;
          hasExcludeKeyword = list_ex (\<lambda>keyword. js_includes desc keyword) excludeKeywords
      in hasRelevantKeyword \<and> \<not> hasExcludeKeyword)"

text \<open>
  The conversion of a unit price to a decimal number, as the updater writes it:
  \<open>parseInt(price.nanos || 0) / 1000000000 + parseInt(price.units || 0)\<close>, in doubles.
\<close>

definition price_of :: "money \<Rightarrow> real" where
  "price_of price =
     js_add (js_div (js_number (int_or_zero (nanos price))) 1000000000)
       (js_number (int_or_zero (units price)))"

text \<open>
  \<open>today\<close> is the date part of the clock as a day number and \<open>now\<close> its ISO text. The
  function returns \<open>None\<close> where the source returns \<open>null\<close>.
\<close>

definition extractPricingInfo :: "int \<Rightarrow> string \<Rightarrow> sku \<Rightarrow> string \<Rightarrow> string \<Rightarrow> catalog_entry option" where
  "extractPricingInfo today now s serviceName serviceId =
     (case pricingInfo s of
        None \<Rightarrow> None
      | Some [] \<Rightarrow> None
      | Some (pinfo # _) \<Rightarrow>
          (case tieredRates (pricingExpression pinfo) of
             None \<Rightarrow> None
           | Some [] \<Rightarrow> None
           | Some (baseRate # otherRates) \<Rightarrow>
               (let price = unitPrice baseRate;
                    pricePerUnit = price_of price
                in if pricePerUnit = 0 then None
                   else
                     (let machineInfo = extractMachineInfo (description s);
                          rates =
                            map (\<lambda>rate.
                                  \<lparr>start_usage_amount = int_or_zero (startUsageAmount rate),
                                   tier_price_per_unit = price_of (unitPrice rate),
                                   tier_currency_code = text_or_usd (currencyCode (unitPrice rate))\<rparr>)
                              (baseRate # otherRates)
                      in Some
                          \<lparr>cat_sku_id = skuId s,
                           cat_sku_name = description s,
                           cat_service_name = serviceName,
                           cat_service_id = serviceId,
                           cat_resource_family = resourceFamily machineInfo,
                           cat_resource_group = resourceGroup machineInfo,
                           cat_usage_type = usageType machineInfo,
                           cat_region =
                             (case serviceRegions s of
                                None \<Rightarrow> None
                              | Some [] \<Rightarrow> None
                              | Some (rg # _) \<Rightarrow> Some rg),
                           cat_currency_code = text_or_usd (currencyCode price),
                           cat_pricing_unit = usageUnit (pricingExpression pinfo),
                           cat_price_per_unit = pricePerUnit,
                           cat_tiered_rates = (if length rates > 1 then Some rates else None),
                           cat_machine_family = machineFamily machineInfo,
                           cat_machine_type = machineType machineInfo,
                           cat_vcpu_count = vcpuCount machineInfo,
                           cat_memory_gb = memoryGb machineInfo,
                           cat_disk_type = diskType machineInfo,
                           cat_gpu_type = gpuType machineInfo,
                           cat_commitment_term = commitmentTerm machineInfo,
                           cat_commitment_type = commitmentType machineInfo,
                           cat_discount_percent = discountPercent machineInfo,
                           cat_network_tier = networkTier machineInfo,
                           cat_effective_date = today,
                           cat_last_updated = now,
                           cat_pricing_source = ''cloud-billing-api'',
                           cat_is_active = True,
                           cat_validation_status = ''valid'',
                           cat_description = description s,
                           cat_category = category machineInfo,
                           cat_tags = tags machineInfo\<rparr>))))"

subsection \<open>The refresh run\<close>

text \<open>
  What the updater's run depends on outside of itself: the answer of the billing API,
  the clock, and which of its requests to the store are rejected (the \<open>UPDATE\<close>, the
  insert of the batch with a given number, the \<open>DELETE\<close>, the report query).
\<close>

record updater_env =
  listSkus :: "js_error + sku list"
  clock_today :: int
  clock_now :: string
  update_rejected :: bool
  batch_rejected :: "nat \<Rightarrow> bool"
  delete_rejected :: bool
  report_rejected :: bool

text \<open>A failed \<open>listSkus\<close> is logged and gives no records.\<close>

definition fetchServicePricing :: "updater_env \<Rightarrow> string \<Rightarrow> string \<Rightarrow> catalog_entry list" where
  "fetchServicePricing env serviceId serviceName =
     (case listSkus env of
        Inl err \<Rightarrow> []
      | Inr skus \<Rightarrow>
          List.map_filter (\<lambda>s. extractPricingInfo (clock_today env) (clock_now env) s serviceName serviceId)
            (filter isRelevantSku skus))"

text \<open>
  Step 1, the \<open>UPDATE\<close>. A rejected request is caught and logged: the function returns
  normally and the table is as it was.
\<close>

definition markExistingPricingInactive :: "updater_env \<Rightarrow> int \<Rightarrow> catalog_entry list \<Rightarrow> catalog_entry list" where
  "markExistingPricingInactive env effectiveDate tbl =
     (if update_rejected env then tbl
      else map (\<lambda>e. if cat_is_active e \<and> cat_effective_date e < effectiveDate
                    then e\<lparr>cat_is_active := False, cat_last_updated := clock_now env\<rparr> else e) tbl)"

text \<open>
  Step 2, the insert in batches of 1000. The loop runs over the start index \<open>i\<close>; a
  rejected batch is logged and rethrown, with the earlier batches in the table.
\<close>

function insert_batches :: "updater_env \<Rightarrow> catalog_entry list \<Rightarrow> nat \<Rightarrow> catalog_entry list \<Rightarrow> js_error option \<times> catalog_entry list" where
  "insert_batches env pricingData i tbl =
     (let batchSize = 1000 in
      if i < length pricingData then
        (if batch_rejected env (i div batchSize) then (Some StoreError, tbl)
         else insert_batches env pricingData (i + batchSize)
                (tbl @ take batchSize (drop i pricingData)))
      else (None, tbl))"
  by pat_completeness auto
termination
  by (relation "measure (\<lambda>(env, pricingData, i, tbl). length pricingData - i)") auto

definition insertPricingData :: "updater_env \<Rightarrow> catalog_entry list \<Rightarrow> catalog_entry list \<Rightarrow> js_error option \<times> catalog_entry list" where
  "insertPricingData env pricingData tbl = insert_batches env pricingData 0 tbl"

text \<open>
  Step 3, the \<open>DELETE\<close> of inactive entries older than 90 days. A rejected request is
  caught and logged.
\<close>

definition cleanupOldPricingData :: "updater_env \<Rightarrow> catalog_entry list \<Rightarrow> catalog_entry list" where
  "cleanupOldPricingData env tbl =
     (let cutoffDate = clock_today env - 90
      in if delete_rejected env then tbl
         else filter (\<lambda>e. \<not> (cat_effective_date e < cutoffDate \<and> \<not> cat_is_active e)) tbl)"

text \<open>The report: one row per category and service of the new generation.\<close>

record report_row =
  rep_category :: string
  rep_service_name :: string
  record_count :: nat
  avg_price :: real
  min_price :: real
  max_price :: real

record report =
  rep_effective_date :: int
  total_records :: nat
  categories :: "report_row list option"

definition report_rows :: "int \<Rightarrow> catalog_entry list \<Rightarrow> report_row list" where
  "report_rows effectiveDate tbl =
     (let rows = filter (\<lambda>e. cat_effective_date e = effectiveDate \<and> cat_is_active e) tbl;
          groups = sort (remdups (map (\<lambda>e. (cat_category e, cat_service_name e)) rows))
      in map (\<lambda>g.
           (let prices = map cat_price_per_unit
                           (filter (\<lambda>e. (cat_category e, cat_service_name e) = g) rows)
            in \<lparr>rep_category = fst g, rep_service_name = snd g,
                record_count = length prices,
                avg_price = sum_list prices / real (length prices),
                min_price = (case prices of [] \<Rightarrow> 0 | p # ps \<Rightarrow> fold min ps p),
                max_price = (case prices of [] \<Rightarrow> 0 | p # ps \<Rightarrow> fold max ps p)\<rparr>))
           groups)"

definition generateUpdateReport :: "updater_env \<Rightarrow> int \<Rightarrow> nat \<Rightarrow> catalog_entry list \<Rightarrow> report" where
  "generateUpdateReport env effectiveDate totalRecords tbl =
     \<lparr>rep_effective_date = effectiveDate, total_records = totalRecords,
      categories = (if report_rejected env then None else Some (report_rows effectiveDate tbl))\<rparr>"

record update_result =
  upd_success :: bool
  upd_timestamp :: string
  records_updated :: nat
  upd_report :: report

text \<open>
  The cloud event handler. It returns its result, or the exception it rethrows, and the
  catalog table after the run.
\<close>

definition updatePricingCatalog :: "updater_env \<Rightarrow> catalog_entry list \<Rightarrow> (js_error + update_result) \<times> catalog_entry list" where
  "updatePricingCatalog env tbl =
     (let updateTimestamp = clock_now env;
          effectiveDate = clock_today env;
          allPricingData = fetchServicePricing env ''6F81-5844-456A'' ''Compute Engine'';
          tbl1 = markExistingPricingInactive env effectiveDate tbl;
          (thrown, tbl2) =
            (if length allPricingData > 0 then insertPricingData env allPricingData tbl1
             else (None, tbl1))
      in case thrown of
           Some err \<Rightarrow> (Inl err, tbl2)
         | None \<Rightarrow>
             (let tbl3 = cleanupOldPricingData env tbl2;
                  rep = generateUpdateReport env effectiveDate (length allPricingData) tbl3
              in (Inr \<lparr>upd_success = True, upd_timestamp = updateTimestamp,
                        records_updated = length allPricingData, upd_report = rep\<rparr>,
                  tbl3)))"

section \<open>The pricing fetcher\<close>

text \<open>
  The fetcher has its own copy of \<open>extractMachineInfo\<close>. Its \<open>info\<close> object has no
  \<open>commitmentType\<close>, \<open>discountPercent\<close>, \<open>networkTier\<close> and \<open>tags\<close>: in the model these
  fields keep their initial values. The blocks for the vCPU count and the memory size
  are the updater's, character by character, and are shared.

  The fetcher's copy of \<open>extractPricingInfo\<close> is not embedded. It converts the price as
  \<open>parseInt(price.nanos) / 1000000000 + (price.units || 0)\<close>: \<open>units\<close> is added as the
  client library delivers it, so that the result is a number or a text depending on the
  run-time type of that property, which the source does not fix; an absent \<open>nanos\<close> gives
  \<open>NaN\<close>, and an entry with the price 0 is not dropped.
\<close>

definition fetcher_families :: "string list" where
  "fetcher_families =
     [''n1'', ''n2'', ''n2d'', ''e2'', ''c2'', ''c2d'', ''m1'', ''m2'', ''f1'', ''g1'']"

definition fetcher_extract_family_and_type :: "string \<Rightarrow> machine_info \<Rightarrow> machine_info" where
  "fetcher_extract_family_and_type desc info =
     (let info1 =
            (case leftmost (family_here fetcher_families) desc of
               None \<Rightarrow> info
             | Some f \<Rightarrow>
                 info\<lparr>machineFamily := Some f, resourceGroup := toUpperCase f @ ''Standard''\<rparr>)
      in case leftmost (machine_here fetcher_families) desc of
           None \<Rightarrow> info1
         | Some m \<Rightarrow> info1\<lparr>machineType := Some m\<rparr>)"

definition fetcher_detect_disk_types :: "string \<Rightarrow> machine_info \<Rightarrow> machine_info" where
  "fetcher_detect_disk_types desc info =
     (if js_includes desc ''ssd'' then
        info\<lparr>diskType := Some ''pd-ssd'', category := ''storage''\<rparr>
      else if js_includes desc ''standard'' then
        info\<lparr>diskType := Some ''pd-standard'', category := ''storage''\<rparr>
      else if js_includes desc ''balanced'' then
        info\<lparr>diskType := Some ''pd-balanced'', category := ''storage''\<rparr>
      else info)"

definition fetcher_detect_gpu :: "string \<Rightarrow> machine_info \<Rightarrow> machine_info" where
  "fetcher_detect_gpu desc info =
     (if js_includes desc ''gpu'' \<or> js_includes desc ''nvidia'' \<or> js_includes desc ''tesla'' then
        (let info1 = info\<lparr>category := ''gpu''\<rparr>
         in case leftmost gpu_here desc of
              None \<Rightarrow> info1
            | Some (v, m) \<Rightarrow> info1\<lparr>gpuType := Some (v @ ''-'' @ m)\<rparr>)
      else info)"

definition fetcher_detect_preemptible :: "string \<Rightarrow> machine_info \<Rightarrow> machine_info" where
  "fetcher_detect_preemptible desc info =
     (if js_includes desc ''preemptible'' \<or> js_includes desc ''spot'' then
        info\<lparr>usageType := ''Preemptible''\<rparr>
      else info)"

definition fetcher_detect_commitment_terms :: "string \<Rightarrow> machine_info \<Rightarrow> machine_info" where
  "fetcher_detect_commitment_terms desc info =
     (if js_includes desc ''1 year'' \<or> js_includes desc ''1-year'' then
        info\<lparr>commitmentTerm := Some ''1-year'', usageType := ''Committed''\<rparr>
      else if js_includes desc ''3 year'' \<or> js_includes desc ''3-year'' then
        info\<lparr>commitmentTerm := Some ''3-year'', usageType := ''Committed''\<rparr>
      else info)"

definition fetcher_extractMachineInfo :: "string \<Rightarrow> machine_info" where
  "fetcher_extractMachineInfo descr =
     (let desc = toLowerCase descr
      in fetcher_detect_commitment_terms desc
           (fetcher_detect_preemptible desc
              (fetcher_detect_gpu desc
                 (fetcher_detect_disk_types desc
                    (extract_memory desc
                       (extract_vcpu desc
                          (fetcher_extract_family_and_type desc initial_info)))))))"

section \<open>Reading results, and example inputs\<close>

subsection \<open>The calculator\<close>

text \<open>
  The reference resource of the end-to-end scenario (the first row of the sample data,
  without an external IP), a store with empty tables that rejects nothing, and the
  costs of the reference resource under the fallback prices.
\<close>

definition reference_resource :: resource where
  "reference_resource =
     \<lparr>project_id = ''demo-project'', resource_id = ''prod-web-001'',
      instance_name = None, machine_type = Some ''n1-standard-2'',
      vcpu_count = 2, memory_gb = 7.5, disk_type = ''pd-standard'', disk_size_gb = 100,
      additional_disks = None, region = ''us-central1'', usage_duration_hours = 730,
      usage_pattern = Some ''continuous'', pricing_model = ''on-demand'',
      gpu_type = None, gpu_count = None, external_ip = None,
      cost_center = None, environment = None, team = None\<rparr>"

definition empty_store :: bigquery where
  "empty_store =
     \<lparr>resource_specs = [], specs_rejected = False, catalog = [],
      rejects = (\<lambda>q. False), insert_rejected = False\<rparr>"

definition reference_costs :: costs where
  "reference_costs = \<lparr>compute = 103.8425, memory = 0, storage = 4, network = 0, gpu = 0\<rparr>"

text \<open>How many of the three discount families carry a non-zero percentage or amount.\<close>

definition nonzero_families :: "discounts \<Rightarrow> nat" where
  "nonzero_families d =
     (if sud_percent d \<noteq> 0 \<or> sud_amount d \<noteq> 0 then 1 else 0)
     + (if cud_percent d \<noteq> 0 \<or> cud_amount d \<noteq> 0 then 1 else 0)
     + (if spot_percent d \<noteq> 0 \<or> spot_amount d \<noteq> 0 then 1 else 0)"


text \<open>
  A catalog entry for a GPU and one for a disk, a resource with one GPU of that type,
  stores with the first or both entries in the catalog, a store whose resource table
  holds the reference resource and a copy of it without machine type, and a request
  without filters.
\<close>

definition sample_gpu_entry :: catalog_entry where
  "sample_gpu_entry =
     \<lparr>cat_sku_id = ''0001-GPU'', cat_sku_name = ''Nvidia Tesla V100 GPU running in Americas'',
      cat_service_name = ''Compute Engine'', cat_service_id = ''6F81-5844-456A'',
      cat_resource_family = ''Compute'', cat_resource_group = ''Standard'',
      cat_usage_type = ''OnDemand'', cat_region = None, cat_currency_code = ''USD'',
      cat_pricing_unit = ''h'', cat_price_per_unit = 2.48, cat_tiered_rates = None,
      cat_machine_family = None, cat_machine_type = None, cat_vcpu_count = None,
      cat_memory_gb = None, cat_disk_type = None, cat_gpu_type = Some ''nvidia-tesla'',
      cat_commitment_term = None, cat_commitment_type = None, cat_discount_percent = 0,
      cat_network_tier = None, cat_effective_date = 19000,
      cat_last_updated = ''2022-01-08T00:00:00.000Z'', cat_pricing_source = ''cloud-billing-api'',
      cat_is_active = True, cat_validation_status = ''valid'',
      cat_description = ''Nvidia Tesla V100 GPU running in Americas'',
      cat_category = ''gpu'', cat_tags = [''gpu:nvidia-tesla'']\<rparr>"

definition gpu_resource :: resource where
  "gpu_resource =
     reference_resource\<lparr>resource_id := ''ml-train-001'', machine_type := Some ''n1-standard-8'',
       vcpu_count := 8, memory_gb := 30, gpu_type := Some ''nvidia-tesla'', gpu_count := Some 1\<rparr>"

definition gpu_store :: bigquery where
  "gpu_store = empty_store\<lparr>catalog := [sample_gpu_entry]\<rparr>"

definition sample_storage_entry :: catalog_entry where
  "sample_storage_entry =
     \<lparr>cat_sku_id = ''0002-PD'', cat_sku_name = ''Standard persistent disk storage'',
      cat_service_name = ''Compute Engine'', cat_service_id = ''6F81-5844-456A'',
      cat_resource_family = ''Compute'', cat_resource_group = ''Standard'',
      cat_usage_type = ''OnDemand'', cat_region = Some ''us-central1'', cat_currency_code = ''USD'',
      cat_pricing_unit = ''GiBy.mo'', cat_price_per_unit = 0.045, cat_tiered_rates = None,
      cat_machine_family = None, cat_machine_type = None, cat_vcpu_count = None,
      cat_memory_gb = None, cat_disk_type = Some ''pd-standard'', cat_gpu_type = None,
      cat_commitment_term = None, cat_commitment_type = None, cat_discount_percent = 0,
      cat_network_tier = None, cat_effective_date = 19000,
      cat_last_updated = ''2022-01-08T00:00:00.000Z'', cat_pricing_source = ''cloud-billing-api'',
      cat_is_active = True, cat_validation_status = ''valid'',
      cat_description = ''Standard persistent disk storage'',
      cat_category = ''storage'', cat_tags = [''storage:standard'']\<rparr>"

definition priced_store :: bigquery where
  "priced_store = empty_store\<lparr>catalog := [sample_gpu_entry, sample_storage_entry]\<rparr>"

text \<open>
  Whether the price lookup asks for a GPU price (\<open>resource.gpu_count && resource.gpu_count > 0\<close>),
  and whether the lookups of a resource go through: the machine type is present and the
  store rejects none of the queries that the lookup sends for the resource.
\<close>

definition wants_gpu :: "resource \<Rightarrow> bool" where
  "wants_gpu r = (case gpu_count r of None \<Rightarrow> False | Some n \<Rightarrow> n \<noteq> 0 \<and> n > 0)"

definition lookups_succeed :: "bigquery \<Rightarrow> resource \<Rightarrow> bool" where
  "lookups_succeed bq r =
     (case machine_type r of
        None \<Rightarrow> False
      | Some mt \<Rightarrow>
          \<not> rejects bq (ComputeQuery mt (split_first mt) (region r) (getUsageType (pricing_model r)))
          \<and> \<not> rejects bq (StorageQuery (disk_type r) (region r))
          \<and> (wants_gpu r \<longrightarrow> \<not> rejects bq (GpuQuery (gpu_type r) (region r))))"

text \<open>
  A store whose catalog lists the disk at the price 0, and one that holds both sample
  entries and rejects every query.
\<close>

definition free_disk_store :: bigquery where
  "free_disk_store =
     empty_store\<lparr>catalog := [sample_gpu_entry, sample_storage_entry\<lparr>cat_price_per_unit := 0\<rparr>]\<rparr>"

definition rejecting_store :: bigquery where
  "rejecting_store = priced_store\<lparr>rejects := (\<lambda>q. True)\<rparr>"

definition two_resources_store :: bigquery where
  "two_resources_store =
     empty_store\<lparr>resource_specs :=
       [reference_resource,
        reference_resource\<lparr>resource_id := ''prod-web-002'', machine_type := None\<rparr>]\<rparr>"

definition no_filters :: request where
  "no_filters =
     \<lparr>projectIds = None, resourceIds = None, regions = None, pricingModels = None,
      requestedBy = None\<rparr>"

text \<open>What a response reports.\<close>

definition processed_count :: "http_response \<Rightarrow> nat option" where
  "processed_count resp =
     (case resp of Status200 b \<Rightarrow> Some (resources_processed b) | Status404 \<Rightarrow> None | Status500 err \<Rightarrow> None)"

definition response_success :: "http_response \<Rightarrow> bool" where
  "response_success resp =
     (case resp of Status200 b \<Rightarrow> success b | Status404 \<Rightarrow> False | Status500 err \<Rightarrow> False)"

text \<open>A step that throws for a resource without machine type.\<close>

definition strict_step :: "resource \<Rightarrow> js_error + line_item" where
  "strict_step r =
     (if machine_type r = None then Inl TypeError
      else Inr (calculateResourceBoQ empty_store ''2024-01-01T00:00:00.000Z'' r ''boq-1'' None))"


subsection \<open>The feed and the refresh run\<close>

text \<open>The unit price of the first tier of the first pricing record of a SKU, if any.\<close>

definition first_unit_price :: "sku \<Rightarrow> money option" where
  "first_unit_price s =
     (case pricingInfo s of
        None \<Rightarrow> None
      | Some [] \<Rightarrow> None
      | Some (pinfo # _) \<Rightarrow>
          (case tieredRates (pricingExpression pinfo) of
             None \<Rightarrow> None
           | Some [] \<Rightarrow> None
           | Some (rate # _) \<Rightarrow> Some (unitPrice rate)))"

text \<open>
  A SKU with the unit price \<open>{units: 0, nanos: 47500000}\<close>, and three environments of a
  refresh run whose feed is that SKU: one in which the store rejects the \<open>UPDATE\<close> and
  the \<open>DELETE\<close>, one in which it also rejects every insert, and one in which it rejects
  nothing.
\<close>

definition sample_sku :: sku where
  "sample_sku =
     \<lparr>skuId = ''2E27-4F75-95CD'',
      description = ''N1 Predefined Instance Core running in Americas'',
      serviceRegions = Some [''us-central1'', ''us-east1''],
      pricingInfo =
        Some [\<lparr>pricingExpression =
                 \<lparr>usageUnit = ''h'',
                  tieredRates =
                    Some [\<lparr>startUsageAmount = Some 0,
                           unitPrice = \<lparr>currencyCode = Some ''USD'', units = Some 0,
                                        nanos = Some 47500000\<rparr>\<rparr>]\<rparr>\<rparr>]\<rparr>"

text \<open>
  A SKU with the unit price \<open>{units: 2, nanos: 656212475}\<close>.
\<close>

definition drifting_sku :: sku where
  "drifting_sku =
     \<lparr>skuId = ''7A3C-11D0-52BE'',
      description = ''Nvidia Tesla V100 GPU running in Americas'',
      serviceRegions = Some [''us-central1''],
      pricingInfo =
        Some [\<lparr>pricingExpression =
                 \<lparr>usageUnit = ''h'',
                  tieredRates =
                    Some [\<lparr>startUsageAmount = Some 0,
                           unitPrice = \<lparr>currencyCode = Some ''USD'', units = Some 2,
                                        nanos = Some 656212475\<rparr>\<rparr>]\<rparr>\<rparr>]\<rparr>"

definition steps_1_3_fail_env :: updater_env where
  "steps_1_3_fail_env =
     \<lparr>listSkus = Inr [sample_sku], clock_today = 19800,
      clock_now = ''2024-03-18T02:00:00.000Z'',
      update_rejected = True, batch_rejected = (\<lambda>b. False), delete_rejected = True,
      report_rejected = False\<rparr>"

definition step_2_fails_env :: updater_env where
  "step_2_fails_env =
     \<lparr>listSkus = Inr [sample_sku], clock_today = 19800,
      clock_now = ''2024-03-18T02:00:00.000Z'',
      update_rejected = True, batch_rejected = (\<lambda>b. True), delete_rejected = True,
      report_rejected = False\<rparr>"


section \<open>Verified properties\<close>

subsection \<open>Discounts\<close>

lemma min_percent_nonzero:
  fixes z :: int
  assumes "0 \<le> z"
  shows "min 30 (of_int z * 5) \<noteq> (0::real) \<longleftrightarrow> 1 \<le> z"
proof (cases "z = 0")
  case True
  then show ?thesis by simp
next
  case False
  with assms have "1 \<le> z" by simp
  then have "(0::real) < of_int z * 5" by simp
  then have "(0::real) < min 30 (of_int z * 5)" by simp
  with \<open>1 \<le> z\<close> show ?thesis by simp
qed

lemma sud_nonzero_iff:
  fixes h :: real
  assumes "183 < h"
  shows "min 30 (of_int \<lfloor>(h - 183) / 73\<rfloor> * 5) \<noteq> (0::real) \<longleftrightarrow> 256 \<le> h"
proof -
  have nn: "0 \<le> \<lfloor>(h - 183) / 73\<rfloor>" using assms by simp
  have "1 \<le> \<lfloor>(h - 183) / 73\<rfloor> \<longleftrightarrow> 256 \<le> h"
    by (simp add: le_floor_iff)
  with min_percent_nonzero [OF nn] show ?thesis by simp
qed

text \<open>
  C1, as amended. For a resource with a supported pricing model, \<open>calculateDiscounts\<close>
  leaves every discount family other than the one of the pricing model at zero, in
  percentage and amount: \<open>spot\<close> and \<open>preemptible\<close> give the spot percentage 60,
  \<open>cud-1-year\<close> the committed-use percentage 25 and \<open>cud-3-year\<close> 37, each with the
  amount percent/100 of compute plus GPU cost; \<open>on-demand\<close> gives only a sustained-use
  discount, whose percentage is non-zero exactly when the usage pattern is
  \<open>continuous\<close> and the usage duration is at least 256 hours. So at most one family is
  non-zero, and for \<open>on-demand\<close> with at most 183 hours all percentages and amounts
  are zero.
\<close>

theorem calculateDiscounts_one_family:
  "(pricing_model r = ''spot'' \<or> pricing_model r = ''preemptible'' \<longrightarrow>
      calculateDiscounts r c =
        no_discounts\<lparr>spot_percent := 60, spot_amount := (compute c + gpu c) * (60 / 100)\<rparr>)
   \<and> (pricing_model r = ''cud-1-year'' \<longrightarrow>
      calculateDiscounts r c =
        no_discounts\<lparr>cud_percent := 25, cud_amount := (compute c + gpu c) * (25 / 100)\<rparr>)
   \<and> (pricing_model r = ''cud-3-year'' \<longrightarrow>
      calculateDiscounts r c =
        no_discounts\<lparr>cud_percent := 37, cud_amount := (compute c + gpu c) * (37 / 100)\<rparr>)
   \<and> (pricing_model r = ''on-demand'' \<longrightarrow>
      cud_percent (calculateDiscounts r c) = 0 \<and> cud_amount (calculateDiscounts r c) = 0
      \<and> spot_percent (calculateDiscounts r c) = 0 \<and> spot_amount (calculateDiscounts r c) = 0
      \<and> (sud_percent (calculateDiscounts r c) \<noteq> 0 \<longleftrightarrow>
           usage_pattern r = Some ''continuous'' \<and> 256 \<le> usage_duration_hours r)
      \<and> (sud_amount (calculateDiscounts r c) \<noteq> 0 \<longrightarrow> sud_percent (calculateDiscounts r c) \<noteq> 0)
      \<and> (usage_duration_hours r \<le> 183 \<longrightarrow> calculateDiscounts r c = no_discounts))
   \<and> (pricing_model r \<in> {''on-demand'', ''cud-1-year'', ''cud-3-year'', ''spot'', ''preemptible''} \<longrightarrow>
      nonzero_families (calculateDiscounts r c) \<le> 1)"
proof -
  have spot: "pricing_model r = ''spot'' \<or> pricing_model r = ''preemptible'' \<Longrightarrow>
      calculateDiscounts r c =
        no_discounts\<lparr>spot_percent := 60, spot_amount := (compute c + gpu c) * (60 / 100)\<rparr>"
    by (auto simp: calculateDiscounts_def Let_def)
  have cud1: "pricing_model r = ''cud-1-year'' \<Longrightarrow>
      calculateDiscounts r c =
        no_discounts\<lparr>cud_percent := 25, cud_amount := (compute c + gpu c) * (25 / 100)\<rparr>"
    by (simp add: calculateDiscounts_def Let_def)
  have cud3: "pricing_model r = ''cud-3-year'' \<Longrightarrow>
      calculateDiscounts r c =
        no_discounts\<lparr>cud_percent := 37, cud_amount := (compute c + gpu c) * (37 / 100)\<rparr>"
    by (simp add: calculateDiscounts_def Let_def)
  have od_other: "pricing_model r = ''on-demand'' \<Longrightarrow>
      cud_percent (calculateDiscounts r c) = 0 \<and> cud_amount (calculateDiscounts r c) = 0
      \<and> spot_percent (calculateDiscounts r c) = 0 \<and> spot_amount (calculateDiscounts r c) = 0"
    by (simp add: calculateDiscounts_def Let_def no_discounts_def)
  have od_pct: "pricing_model r = ''on-demand'' \<Longrightarrow>
      (sud_percent (calculateDiscounts r c) \<noteq> 0 \<longleftrightarrow>
           usage_pattern r = Some ''continuous'' \<and> 256 \<le> usage_duration_hours r)"
    using sud_nonzero_iff [of "usage_duration_hours r"]
    by (auto simp: calculateDiscounts_def Let_def no_discounts_def)
  have od_amt: "pricing_model r = ''on-demand'' \<Longrightarrow>
      sud_amount (calculateDiscounts r c) \<noteq> 0 \<Longrightarrow> sud_percent (calculateDiscounts r c) \<noteq> 0"
    by (auto simp: calculateDiscounts_def Let_def no_discounts_def split: if_splits)
  have od_low: "pricing_model r = ''on-demand'' \<Longrightarrow> usage_duration_hours r \<le> 183 \<Longrightarrow>
      calculateDiscounts r c = no_discounts"
    by (simp add: calculateDiscounts_def Let_def)
  have cnt: "pricing_model r \<in> {''on-demand'', ''cud-1-year'', ''cud-3-year'', ''spot'', ''preemptible''} \<Longrightarrow>
      nonzero_families (calculateDiscounts r c) \<le> 1"
    using spot cud1 cud3 od_other
    by (auto simp: nonzero_families_def no_discounts_def)
  show ?thesis
    using spot cud1 cud3 od_other od_pct od_amt od_low cnt by blast
qed

text \<open>
  C1 on the reference resource and on its variants with 100 hours and with the other
  four pricing models.
\<close>

theorem calculateDiscounts_one_family_witness:
  "sud_percent (calculateDiscounts reference_resource reference_costs) \<noteq> 0
   \<and> cud_percent (calculateDiscounts reference_resource reference_costs) = 0
   \<and> spot_percent (calculateDiscounts reference_resource reference_costs) = 0
   \<and> nonzero_families (calculateDiscounts reference_resource reference_costs) \<le> 1
   \<and> calculateDiscounts (reference_resource\<lparr>usage_duration_hours := 100\<rparr>) reference_costs
       = no_discounts
   \<and> spot_percent (calculateDiscounts (reference_resource\<lparr>pricing_model := ''spot''\<rparr>) reference_costs) = 60
   \<and> spot_amount (calculateDiscounts (reference_resource\<lparr>pricing_model := ''preemptible''\<rparr>) reference_costs)
       = 62.3055
   \<and> cud_percent (calculateDiscounts (reference_resource\<lparr>pricing_model := ''cud-1-year''\<rparr>) reference_costs) = 25
   \<and> cud_percent (calculateDiscounts (reference_resource\<lparr>pricing_model := ''cud-3-year''\<rparr>) reference_costs) = 37"
  using calculateDiscounts_one_family [of reference_resource reference_costs]
    calculateDiscounts_one_family [of "reference_resource\<lparr>usage_duration_hours := 100\<rparr>" reference_costs]
    calculateDiscounts_one_family [of "reference_resource\<lparr>pricing_model := ''spot''\<rparr>" reference_costs]
    calculateDiscounts_one_family [of "reference_resource\<lparr>pricing_model := ''preemptible''\<rparr>" reference_costs]
    calculateDiscounts_one_family [of "reference_resource\<lparr>pricing_model := ''cud-1-year''\<rparr>" reference_costs]
    calculateDiscounts_one_family [of "reference_resource\<lparr>pricing_model := ''cud-3-year''\<rparr>" reference_costs]
  by (simp add: reference_resource_def reference_costs_def no_discounts_def)

text \<open>
  C1 as stated fails: an \<open>on-demand\<close>, \<open>continuous\<close> resource used for 200 hours
  (more than 183) gets no non-zero discount family at all.
\<close>

theorem calculateDiscounts_one_family_counterexample:
  "pricing_model (reference_resource\<lparr>usage_duration_hours := 200\<rparr>) = ''on-demand''
   \<and> usage_pattern (reference_resource\<lparr>usage_duration_hours := 200\<rparr>) = Some ''continuous''
   \<and> 183 < usage_duration_hours (reference_resource\<lparr>usage_duration_hours := 200\<rparr>)
   \<and> nonzero_families
        (calculateDiscounts (reference_resource\<lparr>usage_duration_hours := 200\<rparr>) reference_costs) = 0"
  by (simp add: reference_resource_def calculateDiscounts_def nonzero_families_def no_discounts_def)


lemma sud_formula_mono:
  fixes h1 h2 :: real
  assumes "h1 \<le> h2"
  shows "(if h1 > 183 then min 30 (of_int \<lfloor>(h1 - 183) / 73\<rfloor> * 5) else 0)
         \<le> (if h2 > 183 then min (30::real) (of_int \<lfloor>(h2 - 183) / 73\<rfloor> * 5) else 0)"
proof -
  have fl: "\<lfloor>(h1 - 183) / 73\<rfloor> \<le> \<lfloor>(h2 - 183) / 73\<rfloor>"
    using assms by (intro floor_mono divide_right_mono) simp_all
  have nn: "h2 > 183 \<Longrightarrow> 0 \<le> \<lfloor>(h2 - 183) / 73\<rfloor>" by simp
  show ?thesis using fl nn assms by (auto simp: min_def)
qed

lemma sud_formula_cap:
  fixes h :: real
  assumes "183 + 73 * 6 \<le> h"
  shows "(if h > 183 then min 30 (of_int \<lfloor>(h - 183) / 73\<rfloor> * 5) else 0) = (30::real)"
proof -
  from assms have "6 \<le> (h - 183) / 73" by simp
  then have "6 \<le> \<lfloor>(h - 183) / 73\<rfloor>" by (simp add: le_floor_iff)
  then have "(30::real) \<le> of_int \<lfloor>(h - 183) / 73\<rfloor> * 5" by linarith
  then show ?thesis using assms by (simp add: min_def)
qed

lemma sud_percent_on_demand:
  assumes "pricing_model r = ''on-demand''" and "usage_pattern r = Some ''continuous''"
  shows "sud_percent (calculateDiscounts r c) =
           (if usage_duration_hours r > 183
            then min 30 (of_int \<lfloor>(usage_duration_hours r - 183) / 73\<rfloor> * 5) else 0)"
  using assms by (simp add: calculateDiscounts_def no_discounts_def Let_def)

text \<open>
  C2. For \<open>on-demand\<close> resources with usage pattern \<open>continuous\<close>, the sustained-use
  percentage is \<open>min(30, floor((hours - 183) / 73) * 5)\<close> above 183 hours and 0
  otherwise; it does not decrease when the hours grow; and it is 30 from
  \<open>183 + 73 * 6\<close> hours on.
\<close>

theorem sustained_use_percent:
  assumes "pricing_model r = ''on-demand''" and "usage_pattern r = Some ''continuous''"
    and "pricing_model r' = ''on-demand''" and "usage_pattern r' = Some ''continuous''"
  shows "sud_percent (calculateDiscounts r c) =
           (if usage_duration_hours r > 183
            then min 30 (of_int \<lfloor>(usage_duration_hours r - 183) / 73\<rfloor> * 5) else 0)
         \<and> (usage_duration_hours r \<le> usage_duration_hours r' \<longrightarrow>
              sud_percent (calculateDiscounts r c) \<le> sud_percent (calculateDiscounts r' c'))
         \<and> (183 + 73 * 6 \<le> usage_duration_hours r \<longrightarrow>
              sud_percent (calculateDiscounts r c) = 30)"
proof -
  note f = sud_percent_on_demand [OF assms(1,2), of c]
  note f' = sud_percent_on_demand [OF assms(3,4), of c']
  have mono: "usage_duration_hours r \<le> usage_duration_hours r' \<Longrightarrow>
      sud_percent (calculateDiscounts r c) \<le> sud_percent (calculateDiscounts r' c')"
    unfolding f f' by (rule sud_formula_mono)
  have cap: "183 + 73 * 6 \<le> usage_duration_hours r \<Longrightarrow>
      sud_percent (calculateDiscounts r c) = 30"
    unfolding f by (rule sud_formula_cap)
  from f mono cap show ?thesis by blast
qed

text \<open>
  C2 at 300 and 730 hours: the percentages are 5 and 30, in that order, and 730 hours
  lie beyond the cap.
\<close>

theorem sustained_use_percent_witness:
  "sud_percent (calculateDiscounts (reference_resource\<lparr>usage_duration_hours := 300\<rparr>) reference_costs) = 5
   \<and> sud_percent (calculateDiscounts reference_resource reference_costs) = 30
   \<and> sud_percent (calculateDiscounts (reference_resource\<lparr>usage_duration_hours := 300\<rparr>) reference_costs)
       \<le> sud_percent (calculateDiscounts reference_resource reference_costs)"
  using sustained_use_percent
      [of "reference_resource\<lparr>usage_duration_hours := 300\<rparr>" reference_resource
          reference_costs reference_costs]
    sustained_use_percent [of reference_resource reference_resource reference_costs reference_costs]
  by (simp add: reference_resource_def)

subsection \<open>Totals and base costs\<close>

text \<open>
  C3. For all costs and all discounts, whatever their size, \<open>calculateTotals\<close> returns
  the total cost \<open>max(0, subtotal - total discount)\<close>, which is never negative.
\<close>

theorem total_cost_floor_at_zero:
  "total_cost (calculateTotals c d) =
     max 0 (subtotal (calculateTotals c d) - total_discount (calculateTotals c d))
   \<and> subtotal (calculateTotals c d) = compute c + memory c + storage c + network c + gpu c
   \<and> total_discount (calculateTotals c d) = sud_amount d + cud_amount d + spot_amount d
   \<and> 0 \<le> total_cost (calculateTotals c d)"
  by (simp add: calculateTotals_def Let_def)

text \<open>
  C10. \<open>calculateBaseCosts\<close> returns the memory cost 0 for every resource and every
  pricing record, and every line item that \<open>calculateResourceBoQ\<close> produces has
  \<open>memory_cost_usd = 0\<close>.
\<close>

theorem memory_cost_zero:
  "memory (calculateBaseCosts r p) = 0
   \<and> memory_cost_usd (calculateResourceBoQ bq now r boqId rb) = 0"
  by (simp add: calculateBaseCosts_def calculateResourceBoQ_def Let_def split: option.splits)

subsection \<open>Price resolution\<close>

lemma select_rows_empty_iff:
  "select_rows tbl q = [] \<longleftrightarrow> (\<forall>e\<in>set tbl. \<not> matches q e)"
proof -
  have "select_rows tbl q = [] \<longleftrightarrow> sort_key (rank q) (filter (matches q) tbl) = []"
    by (simp add: select_rows_def)
  also have "\<dots> \<longleftrightarrow> filter (matches q) tbl = []"
    by (metis length_0_conv length_sort)
  also have "\<dots> \<longleftrightarrow> (\<forall>e\<in>set tbl. \<not> matches q e)"
    by (simp add: filter_empty_conv)
  finally show ?thesis .
qed

lemma select_rows_Cons:
  assumes "select_rows tbl q = e # es"
  shows "es = [] \<and> e \<in> set tbl \<and> matches q e
         \<and> (\<forall>e'\<in>set tbl. matches q e' \<longrightarrow> rank q e \<le> rank q e')"
proof -
  let ?s = "sort_key (rank q) (filter (matches q) tbl)"
  from assms have t: "take 1 ?s = e # es" by (simp add: select_rows_def)
  then obtain rest where s: "?s = e # rest" and es: "es = []"
    by (cases ?s) auto
  have "e \<in> set ?s" using s by simp
  then have mem: "e \<in> set tbl \<and> matches q e" by simp
  have "sorted (map (rank q) ?s)" by (rule sorted_sort_key)
  then have "\<forall>x\<in>set rest. rank q e \<le> rank q x" using s by simp
  then have "\<forall>x\<in>set ?s. rank q e \<le> rank q x" using s by auto
  then have "\<forall>e'\<in>set tbl. matches q e' \<longrightarrow> rank q e \<le> rank q e'" by simp
  with es mem show ?thesis by blast
qed

lemma compute_price_fallback:
  assumes "\<forall>mt. machine_type r = Some mt \<longrightarrow>
             (\<forall>e\<in>set (catalog bq).
                \<not> matches (ComputeQuery mt (split_first mt) (region r) (getUsageType (pricing_model r))) e)"
  shows "compute_price_per_hour (fetchPricingForResource bq r) = estimateComputePricing r"
proof (cases "machine_type r")
  case None
  then show ?thesis
    by (simp add: fetchPricingForResource_def fetchPricing_try_def Let_def)
next
  case (Some mt)
  with assms have "select_rows (catalog bq)
      (ComputeQuery mt (split_first mt) (region r) (getUsageType (pricing_model r))) = []"
    by (simp add: select_rows_empty_iff)
  with Some show ?thesis
    by (simp add: fetchPricingForResource_def fetchPricing_try_def run_query_def Let_def
        split: option.splits sum.splits list.splits)
qed

lemma storage_price_fallback:
  assumes "\<forall>e\<in>set (catalog bq). \<not> matches (StorageQuery (disk_type r) (region r)) e"
  shows "storage_price_per_gb_month (fetchPricingForResource bq r) = getDefaultStoragePricing (disk_type r)"
proof -
  from assms have "select_rows (catalog bq) (StorageQuery (disk_type r) (region r)) = []"
    by (simp add: select_rows_empty_iff)
  then show ?thesis
    by (simp add: fetchPricingForResource_def fetchPricing_try_def run_query_def Let_def
        split: option.splits sum.splits list.splits)
qed

lemma gpu_price_no_match:
  assumes "\<forall>e\<in>set (catalog bq). \<not> matches (GpuQuery (gpu_type r) (region r)) e"
  shows "gpu_price_per_hour (fetchPricingForResource bq r) = 0"
proof -
  from assms have "select_rows (catalog bq) (GpuQuery (gpu_type r) (region r)) = []"
    by (simp add: select_rows_empty_iff)
  then show ?thesis
    by (simp add: fetchPricingForResource_def fetchPricing_try_def run_query_def Let_def
        initial_pricing_def split: option.splits sum.splits list.splits)
qed

lemma lookups_succeed_iff:
  "lookups_succeed bq r \<longleftrightarrow> (\<exists>p. fetchPricing_try bq r = Inr p)"
  by (auto simp: lookups_succeed_def wants_gpu_def fetchPricing_try_def run_query_def Let_def
      split: option.splits sum.splits list.splits)

lemma lookup_failure_prices:
  assumes "\<not> lookups_succeed bq r"
  shows "compute_price_per_hour (fetchPricingForResource bq r) = estimateComputePricing r
    \<and> storage_price_per_gb_month (fetchPricingForResource bq r) = getDefaultStoragePricing (disk_type r)
    \<and> gpu_price_per_hour (fetchPricingForResource bq r) = 0"
  using assms
  by (auto simp: lookups_succeed_def wants_gpu_def fetchPricingForResource_def
      fetchPricing_try_def run_query_def Let_def initial_pricing_def
      split: option.splits sum.splits list.splits if_splits)

lemma gpu_price_not_wanted:
  assumes "\<not> wants_gpu r"
  shows "gpu_price_per_hour (fetchPricingForResource bq r) = 0"
  using assms
  by (auto simp: wants_gpu_def fetchPricingForResource_def fetchPricing_try_def run_query_def
      Let_def initial_pricing_def split: option.splits sum.splits list.splits if_splits)

text \<open>
  The row that a query returns when some entry matches: a matching entry of the catalog
  that no other matching entry precedes in the query's order.
\<close>

lemma best_match:
  assumes "\<exists>e\<in>set tbl. matches q e"
  obtains e where "select_rows tbl q = [e]" and "e \<in> set tbl" and "matches q e"
    and "\<forall>e'\<in>set tbl. matches q e' \<longrightarrow> rank q e \<le> rank q e'"
proof -
  from assms have "select_rows tbl q \<noteq> []"
    unfolding select_rows_empty_iff by blast
  then obtain e es where sel: "select_rows tbl q = e # es"
    by (cases "select_rows tbl q") auto
  from select_rows_Cons [OF sel] that sel show thesis by blast
qed

lemma storage_price_best_match:
  assumes ok: "lookups_succeed bq r"
    and ex: "\<exists>e\<in>set (catalog bq). matches (StorageQuery (disk_type r) (region r)) e"
  shows "\<exists>e\<in>set (catalog bq). matches (StorageQuery (disk_type r) (region r)) e
           \<and> (\<forall>e'\<in>set (catalog bq). matches (StorageQuery (disk_type r) (region r)) e'
                 \<longrightarrow> rank (StorageQuery (disk_type r) (region r)) e
                       \<le> rank (StorageQuery (disk_type r) (region r)) e')
           \<and> storage_price_per_gb_month (fetchPricingForResource bq r) = cat_price_per_unit e"
proof -
  from best_match [OF ex] obtain e where
    sel: "select_rows (catalog bq) (StorageQuery (disk_type r) (region r)) = [e]"
    and e: "e \<in> set (catalog bq)" "matches (StorageQuery (disk_type r) (region r)) e"
      "\<forall>e'\<in>set (catalog bq). matches (StorageQuery (disk_type r) (region r)) e'
         \<longrightarrow> rank (StorageQuery (disk_type r) (region r)) e
               \<le> rank (StorageQuery (disk_type r) (region r)) e'"
    by blast
  have "storage_price_per_gb_month (fetchPricingForResource bq r) = cat_price_per_unit e"
    using ok sel
    by (auto simp: lookups_succeed_def wants_gpu_def fetchPricingForResource_def
        fetchPricing_try_def run_query_def Let_def split: option.splits list.splits)
  with e show ?thesis by blast
qed

lemma gpu_price_best_match:
  assumes ok: "lookups_succeed bq r" and w: "wants_gpu r"
    and ex: "\<exists>e\<in>set (catalog bq). matches (GpuQuery (gpu_type r) (region r)) e"
  shows "\<exists>e\<in>set (catalog bq). matches (GpuQuery (gpu_type r) (region r)) e
           \<and> (\<forall>e'\<in>set (catalog bq). matches (GpuQuery (gpu_type r) (region r)) e'
                 \<longrightarrow> rank (GpuQuery (gpu_type r) (region r)) e
                       \<le> rank (GpuQuery (gpu_type r) (region r)) e')
           \<and> gpu_price_per_hour (fetchPricingForResource bq r) = cat_price_per_unit e"
proof -
  from best_match [OF ex] obtain e where
    sel: "select_rows (catalog bq) (GpuQuery (gpu_type r) (region r)) = [e]"
    and e: "e \<in> set (catalog bq)" "matches (GpuQuery (gpu_type r) (region r)) e"
      "\<forall>e'\<in>set (catalog bq). matches (GpuQuery (gpu_type r) (region r)) e'
         \<longrightarrow> rank (GpuQuery (gpu_type r) (region r)) e
               \<le> rank (GpuQuery (gpu_type r) (region r)) e'"
    by blast
  have "gpu_price_per_hour (fetchPricingForResource bq r) = cat_price_per_unit e"
    using ok w sel
    by (auto simp: lookups_succeed_def wants_gpu_def fetchPricingForResource_def
        fetchPricing_try_def run_query_def Let_def split: option.splits list.splits)
  with e show ?thesis by blast
qed

lemma gpu_cost_no_price:
  "gpu_price_per_hour p = 0 \<Longrightarrow> gpu (calculateBaseCosts r p) = 0"
  by (simp add: calculateBaseCosts_def Let_def split: option.splits)

text \<open>
  C5. When no catalog entry matches the compute query of a resource, the resolved
  compute price per hour is \<open>vcpu_count * 0.0475 + memory_gb * 0.0063\<close>. For the
  reference resource (2 vCPUs, 7.5 GB, 730 hours, \<open>on-demand\<close>, \<open>continuous\<close>) against
  a catalog without a match, the compute cost is \<open>(2 * 0.0475 + 7.5 * 0.0063) * 730\<close>,
  the sustained-use percentage is 30 and the total cost is below the subtotal.
\<close>

theorem fallback_compute_price:
  "((\<forall>mt. machine_type r = Some mt \<longrightarrow>
       (\<forall>e\<in>set (catalog bq).
          \<not> matches (ComputeQuery mt (split_first mt) (region r) (getUsageType (pricing_model r))) e))
     \<longrightarrow> compute_price_per_hour (fetchPricingForResource bq r)
           = vcpu_count r * 0.0475 + memory_gb r * 0.0063)
   \<and> ((\<forall>e\<in>set (catalog bq).
         \<not> matches (ComputeQuery ''n1-standard-2'' ''n1'' ''us-central1'' ''OnDemand'') e
         \<and> \<not> matches (StorageQuery ''pd-standard'' ''us-central1'') e)
     \<longrightarrow> compute_cost_usd (calculateResourceBoQ bq now reference_resource boqId rb)
           = (2 * 0.0475 + 7.5 * 0.0063) * 730
         \<and> sustained_use_discount_percent (calculateResourceBoQ bq now reference_resource boqId rb) = 30
         \<and> total_cost_usd (calculateResourceBoQ bq now reference_resource boqId rb)
           < subtotal_usd (calculateResourceBoQ bq now reference_resource boqId rb))"
proof (intro conjI impI)
  assume "\<forall>mt. machine_type r = Some mt \<longrightarrow>
       (\<forall>e\<in>set (catalog bq).
          \<not> matches (ComputeQuery mt (split_first mt) (region r) (getUsageType (pricing_model r))) e)"
  then show "compute_price_per_hour (fetchPricingForResource bq r)
           = vcpu_count r * 0.0475 + memory_gb r * 0.0063"
    by (simp add: compute_price_fallback estimateComputePricing_def)
next
  assume nm: "\<forall>e\<in>set (catalog bq).
         \<not> matches (ComputeQuery ''n1-standard-2'' ''n1'' ''us-central1'' ''OnDemand'') e
         \<and> \<not> matches (StorageQuery ''pd-standard'' ''us-central1'') e"
  let ?p = "fetchPricingForResource bq reference_resource"
  have cp: "compute_price_per_hour ?p = 2 * 0.0475 + 7.5 * 0.0063"
    using nm compute_price_fallback [of reference_resource bq]
    by (simp add: reference_resource_def split_first_def getUsageType_def estimateComputePricing_def)
  have sp: "storage_price_per_gb_month ?p = 0.04"
    using nm storage_price_fallback [of bq reference_resource]
    by (simp add: reference_resource_def getDefaultStoragePricing_def)
  have fields: "usage_duration_hours reference_resource = 730"
    "disk_size_gb reference_resource = 100" "gpu_count reference_resource = None"
    "external_ip reference_resource = None"
    by (simp_all add: reference_resource_def)
  have c: "calculateBaseCosts reference_resource ?p
      = \<lparr>compute = (2 * 0.0475 + 7.5 * 0.0063) * 730, memory = 0, storage = 4, network = 0, gpu = 0\<rparr>"
    by (simp add: calculateBaseCosts_def Let_def cp sp fields)
  have pct: "sud_percent (calculateDiscounts reference_resource c') = 30" for c'
    by (simp add: calculateDiscounts_def Let_def reference_resource_def no_discounts_def)
  have amt: "sud_amount (calculateDiscounts reference_resource c') = (compute c' + gpu c') * (30 / 100)
      \<and> cud_amount (calculateDiscounts reference_resource c') = 0
      \<and> spot_amount (calculateDiscounts reference_resource c') = 0" for c'
    by (simp add: calculateDiscounts_def Let_def reference_resource_def no_discounts_def)
  show "compute_cost_usd (calculateResourceBoQ bq now reference_resource boqId rb)
           = (2 * 0.0475 + 7.5 * 0.0063) * 730"
    by (simp add: calculateResourceBoQ_def Let_def c)
  show "sustained_use_discount_percent (calculateResourceBoQ bq now reference_resource boqId rb) = 30"
    by (simp add: calculateResourceBoQ_def Let_def pct)
  show "total_cost_usd (calculateResourceBoQ bq now reference_resource boqId rb)
           < subtotal_usd (calculateResourceBoQ bq now reference_resource boqId rb)"
    by (simp add: calculateResourceBoQ_def Let_def c amt calculateTotals_def)
qed

text \<open>
  C5 on a catalog whose only entry is a GPU price: the reference resource gets the
  estimated compute price, the compute cost 103.8425 and a total below the subtotal.
\<close>

theorem fallback_compute_price_witness:
  "compute_price_per_hour (fetchPricingForResource gpu_store reference_resource) = 0.14225
   \<and> compute_cost_usd
        (calculateResourceBoQ gpu_store ''2024-01-01T00:00:00.000Z'' reference_resource ''boq-1'' None)
       = 103.8425
   \<and> sustained_use_discount_percent
        (calculateResourceBoQ gpu_store ''2024-01-01T00:00:00.000Z'' reference_resource ''boq-1'' None)
       = 30
   \<and> total_cost_usd
        (calculateResourceBoQ gpu_store ''2024-01-01T00:00:00.000Z'' reference_resource ''boq-1'' None)
       < subtotal_usd
        (calculateResourceBoQ gpu_store ''2024-01-01T00:00:00.000Z'' reference_resource ''boq-1'' None)"
  using fallback_compute_price
    [of reference_resource gpu_store "''2024-01-01T00:00:00.000Z''" "''boq-1''" None]
  by (simp add: gpu_store_def empty_store_def sample_gpu_entry_def reference_resource_def)

text \<open>
  C6, as amended. The lookups of a resource go through when its machine type is present
  and the store rejects none of its queries (the GPU query counting only when
  \<open>gpu_count > 0\<close>); exactly then the \<open>try\<close> block of \<open>fetchPricingForResource\<close> ends
  without an exception. Storage is resolved in two tiers. When the lookups go through
  and some active catalog entry of category \<open>storage\<close> matches the disk type and the
  region, the storage price is the price of such an entry, one that no other matching
  entry precedes in the query's order (an entry of the region before one without
  region), whatever that price is. In every other case, no matching entry or a failed
  lookup, it is the fixed price of the disk type, 0.17, 0.10 or 0.04. The GPU has only
  the first tier. When the lookups go through, \<open>gpu_count > 0\<close> and some active catalog
  entry of category \<open>gpu\<close> matches the GPU type and the region, the GPU price per hour
  is the price of a first such entry. In every other case, no matching entry,
  no \<open>gpu_count > 0\<close> or a failed lookup, the GPU price per hour is 0 and so is the
  GPU cost.
\<close>

theorem gpu_price_resolution:
  "(lookups_succeed bq r \<longleftrightarrow> (\<exists>p. fetchPricing_try bq r = Inr p))
   \<and> (lookups_succeed bq r
        \<and> (\<exists>e\<in>set (catalog bq). matches (StorageQuery (disk_type r) (region r)) e) \<longrightarrow>
      (\<exists>e\<in>set (catalog bq). matches (StorageQuery (disk_type r) (region r)) e
         \<and> (\<forall>e'\<in>set (catalog bq). matches (StorageQuery (disk_type r) (region r)) e'
               \<longrightarrow> rank (StorageQuery (disk_type r) (region r)) e
                     \<le> rank (StorageQuery (disk_type r) (region r)) e')
         \<and> storage_price_per_gb_month (fetchPricingForResource bq r) = cat_price_per_unit e))
   \<and> (\<not> lookups_succeed bq r
        \<or> (\<forall>e\<in>set (catalog bq). \<not> matches (StorageQuery (disk_type r) (region r)) e) \<longrightarrow>
      storage_price_per_gb_month (fetchPricingForResource bq r) = getDefaultStoragePricing (disk_type r)
      \<and> storage_price_per_gb_month (fetchPricingForResource bq r) \<in> {0.17, 0.1, 0.04})
   \<and> (lookups_succeed bq r \<and> wants_gpu r
        \<and> (\<exists>e\<in>set (catalog bq). matches (GpuQuery (gpu_type r) (region r)) e) \<longrightarrow>
      (\<exists>e\<in>set (catalog bq). matches (GpuQuery (gpu_type r) (region r)) e
         \<and> (\<forall>e'\<in>set (catalog bq). matches (GpuQuery (gpu_type r) (region r)) e'
               \<longrightarrow> rank (GpuQuery (gpu_type r) (region r)) e
                     \<le> rank (GpuQuery (gpu_type r) (region r)) e')
         \<and> gpu_price_per_hour (fetchPricingForResource bq r) = cat_price_per_unit e))
   \<and> (\<not> lookups_succeed bq r \<or> \<not> wants_gpu r
        \<or> (\<forall>e\<in>set (catalog bq). \<not> matches (GpuQuery (gpu_type r) (region r)) e) \<longrightarrow>
      gpu_price_per_hour (fetchPricingForResource bq r) = 0
      \<and> gpu (calculateBaseCosts r (fetchPricingForResource bq r)) = 0)"
proof (intro conjI impI)
  show "lookups_succeed bq r \<longleftrightarrow> (\<exists>p. fetchPricing_try bq r = Inr p)"
    by (rule lookups_succeed_iff)
next
  assume "lookups_succeed bq r
        \<and> (\<exists>e\<in>set (catalog bq). matches (StorageQuery (disk_type r) (region r)) e)"
  then show "\<exists>e\<in>set (catalog bq). matches (StorageQuery (disk_type r) (region r)) e
         \<and> (\<forall>e'\<in>set (catalog bq). matches (StorageQuery (disk_type r) (region r)) e'
               \<longrightarrow> rank (StorageQuery (disk_type r) (region r)) e
                     \<le> rank (StorageQuery (disk_type r) (region r)) e')
         \<and> storage_price_per_gb_month (fetchPricingForResource bq r) = cat_price_per_unit e"
    using storage_price_best_match [of bq r] by blast
next
  assume a: "\<not> lookups_succeed bq r
        \<or> (\<forall>e\<in>set (catalog bq). \<not> matches (StorageQuery (disk_type r) (region r)) e)"
  then show s: "storage_price_per_gb_month (fetchPricingForResource bq r)
      = getDefaultStoragePricing (disk_type r)"
    using lookup_failure_prices [of bq r] storage_price_fallback [of bq r] by blast
  show "storage_price_per_gb_month (fetchPricingForResource bq r) \<in> {0.17, 0.1, 0.04}"
    unfolding s by (simp add: getDefaultStoragePricing_def)
next
  assume "lookups_succeed bq r \<and> wants_gpu r
        \<and> (\<exists>e\<in>set (catalog bq). matches (GpuQuery (gpu_type r) (region r)) e)"
  then show "\<exists>e\<in>set (catalog bq). matches (GpuQuery (gpu_type r) (region r)) e
         \<and> (\<forall>e'\<in>set (catalog bq). matches (GpuQuery (gpu_type r) (region r)) e'
               \<longrightarrow> rank (GpuQuery (gpu_type r) (region r)) e
                     \<le> rank (GpuQuery (gpu_type r) (region r)) e')
         \<and> gpu_price_per_hour (fetchPricingForResource bq r) = cat_price_per_unit e"
    using gpu_price_best_match [of bq r] by blast
next
  assume a: "\<not> lookups_succeed bq r \<or> \<not> wants_gpu r
        \<or> (\<forall>e\<in>set (catalog bq). \<not> matches (GpuQuery (gpu_type r) (region r)) e)"
  then show g: "gpu_price_per_hour (fetchPricingForResource bq r) = 0"
    using lookup_failure_prices [of bq r] gpu_price_not_wanted [of r bq]
      gpu_price_no_match [of bq r] by blast
  then show "gpu (calculateBaseCosts r (fetchPricingForResource bq r)) = 0"
    by (rule gpu_cost_no_price)
qed

text \<open>
  C6 on examples, for a resource with one GPU. With a GPU entry and a storage entry in
  the catalog the prices are those entries' 2.48 and 0.045; a storage entry priced 0
  gives the storage price 0; with an empty catalog the GPU price is 0 and the storage
  price the fallback 0.04; and so it is when the catalog holds both entries but the
  store rejects the queries.
\<close>

theorem gpu_price_resolution_witness:
  "lookups_succeed priced_store gpu_resource \<and> wants_gpu gpu_resource
   \<and> gpu_price_per_hour (fetchPricingForResource priced_store gpu_resource) = 2.48
   \<and> storage_price_per_gb_month (fetchPricingForResource priced_store gpu_resource) = 0.045
   \<and> storage_price_per_gb_month (fetchPricingForResource free_disk_store gpu_resource) = 0
   \<and> gpu_price_per_hour (fetchPricingForResource empty_store gpu_resource) = 0
   \<and> storage_price_per_gb_month (fetchPricingForResource empty_store gpu_resource) = 0.04
   \<and> \<not> lookups_succeed rejecting_store gpu_resource
   \<and> gpu_price_per_hour (fetchPricingForResource rejecting_store gpu_resource) = 0
   \<and> storage_price_per_gb_month (fetchPricingForResource rejecting_store gpu_resource) = 0.04"
  using gpu_price_resolution [of priced_store gpu_resource]
    gpu_price_resolution [of empty_store gpu_resource]
    gpu_price_resolution [of free_disk_store gpu_resource]
    gpu_price_resolution [of rejecting_store gpu_resource]
  by (simp add: lookups_succeed_def wants_gpu_def priced_store_def empty_store_def
      free_disk_store_def rejecting_store_def
      sample_gpu_entry_def sample_storage_entry_def gpu_resource_def reference_resource_def
      region_ok_def getDefaultStoragePricing_def split_first_def getUsageType_def)

text \<open>
  C6 as stated fails: a resource with one GPU, priced against a catalog without a
  matching GPU entry, gets the GPU unit price 0, not a fallback price.
\<close>

theorem gpu_price_resolution_counterexample:
  "gpu_count gpu_resource = Some 1
   \<and> gpu_type gpu_resource = Some ''nvidia-tesla''
   \<and> gpu_price_per_hour (fetchPricingForResource empty_store gpu_resource) = 0
   \<and> gpu_cost_usd
        (calculateResourceBoQ empty_store ''2024-01-01T00:00:00.000Z'' gpu_resource ''boq-1'' None) = 0"
  by (simp add: calculateResourceBoQ_def calculateBaseCosts_def
      fetchPricingForResource_def fetchPricing_try_def run_query_def Let_def
      gpu_resource_def reference_resource_def empty_store_def
      select_rows_def initial_pricing_def)

subsection \<open>The calculation run\<close>

lemma boq_loop_eq:
  "boq_loop step rs acc =
     acc @ List.map_filter (\<lambda>r. case step r of Inr y \<Rightarrow> Some y | Inl err \<Rightarrow> None) rs"
  by (induction rs arbitrary: acc) (simp_all add: List.map_filter_simps split: sum.splits)

lemma boq_loop_total: "boq_loop (\<lambda>r. Inr (f r)) rs acc = acc @ map f rs"
  by (induction rs arbitrary: acc) simp_all

lemma calculateBoQ_ok:
  assumes "fetchResourceSpecifications bq req = Inr specs" and "specs \<noteq> []"
    and "\<not> insert_rejected bq"
  shows "calculateBoQ bq now uuid req =
     (Status200
        \<lparr>success = True, resp_boq_id = uuid, resources_processed = length specs,
         resp_summary =
           calculateSummary (map (\<lambda>r. calculateResourceBoQ bq now r uuid (requestedBy req)) specs),
         results = map (\<lambda>r. calculateResourceBoQ bq now r uuid (requestedBy req)) specs,
         resp_timestamp = now\<rparr>,
      map (\<lambda>r. calculateResourceBoQ bq now r uuid (requestedBy req)) specs)"
  using assms
  by (simp add: calculateBoQ_def Let_def boq_loop_total saveBoQResults_def)

lemma calculateBoQ_insert_rejected:
  assumes "fetchResourceSpecifications bq req = Inr specs" and "specs \<noteq> []"
    and "insert_rejected bq"
  shows "calculateBoQ bq now uuid req = (Status500 StoreError, [])"
  using assms
  by (simp add: calculateBoQ_def Let_def boq_loop_total saveBoQResults_def)

lemma two_resources_fetched:
  "fetchResourceSpecifications two_resources_store no_filters =
     Inr [reference_resource,
          reference_resource\<lparr>resource_id := ''prod-web-002'', machine_type := None\<rparr>]"
  by (simp add: fetchResourceSpecifications_def two_resources_store_def empty_store_def
      no_filters_def in_filter_def reference_resource_def)

lemma two_resources_fetched_rejecting:
  "fetchResourceSpecifications (two_resources_store\<lparr>insert_rejected := True\<rparr>) no_filters =
     Inr [reference_resource,
          reference_resource\<lparr>resource_id := ''prod-web-002'', machine_type := None\<rparr>]"
  by (simp add: fetchResourceSpecifications_def two_resources_store_def empty_store_def
      no_filters_def in_filter_def reference_resource_def)

text \<open>
  C4, as amended. In the loop of a calculation run, a resource whose calculation throws
  is skipped and the remaining resources are still processed, in order. The
  calculation of a resource does not throw for a missing machine type: the price
  lookup catches that error and falls back to the estimated prices. So every resource
  that the query returns is processed. When the store accepts the insert, the run
  answers with success, \<open>resources_processed\<close> is the size of the batch, and the
  summary is computed over exactly the line items of the answer; when the store rejects
  the insert, the run as a whole ends with status 500.
\<close>

theorem batch_partial_failure:
  "boq_loop step rs [] =
     List.map_filter (\<lambda>r. case step r of Inr y \<Rightarrow> Some y | Inl err \<Rightarrow> None) rs
   \<and> (fetchResourceSpecifications bq req = Inr specs \<and> specs \<noteq> [] \<and> \<not> insert_rejected bq \<longrightarrow>
        calculateBoQ bq now uuid req =
          (Status200
             \<lparr>success = True, resp_boq_id = uuid, resources_processed = length specs,
              resp_summary =
                calculateSummary
                  (map (\<lambda>r. calculateResourceBoQ bq now r uuid (requestedBy req)) specs),
              results = map (\<lambda>r. calculateResourceBoQ bq now r uuid (requestedBy req)) specs,
              resp_timestamp = now\<rparr>,
           map (\<lambda>r. calculateResourceBoQ bq now r uuid (requestedBy req)) specs))
   \<and> (fetchResourceSpecifications bq req = Inr specs \<and> specs \<noteq> [] \<and> insert_rejected bq \<longrightarrow>
        calculateBoQ bq now uuid req = (Status500 StoreError, []))"
  using boq_loop_eq [of step rs "[]"] calculateBoQ_ok [of bq req specs now uuid]
    calculateBoQ_insert_rejected [of bq req specs now uuid]
  by simp

text \<open>
  C4 on the batch of the reference resource and its copy without machine type: a step
  that throws for the copy leaves one line item; the run itself answers with success
  and the line items of both resources, or with status 500 when the insert is rejected.
\<close>

theorem batch_partial_failure_witness:
  "map li_resource_id
     (boq_loop strict_step
        [reference_resource\<lparr>resource_id := ''prod-web-002'', machine_type := None\<rparr>,
         reference_resource] [])
     = [''prod-web-001'']
   \<and> response_success
        (fst (calculateBoQ two_resources_store ''2024-01-01T00:00:00.000Z'' ''boq-1'' no_filters))
   \<and> map li_resource_id
        (snd (calculateBoQ two_resources_store ''2024-01-01T00:00:00.000Z'' ''boq-1'' no_filters))
     = [''prod-web-001'', ''prod-web-002'']
   \<and> calculateBoQ (two_resources_store\<lparr>insert_rejected := True\<rparr>)
        ''2024-01-01T00:00:00.000Z'' ''boq-1'' no_filters
     = (Status500 StoreError, [])"
  using batch_partial_failure
    [of strict_step
        "[reference_resource\<lparr>resource_id := ''prod-web-002'', machine_type := None\<rparr>,
          reference_resource]"
        two_resources_store no_filters
        "[reference_resource,
          reference_resource\<lparr>resource_id := ''prod-web-002'', machine_type := None\<rparr>]"
        "''2024-01-01T00:00:00.000Z''" "''boq-1''"]
    batch_partial_failure
    [of strict_step "[]" "two_resources_store\<lparr>insert_rejected := True\<rparr>" no_filters
        "[reference_resource,
          reference_resource\<lparr>resource_id := ''prod-web-002'', machine_type := None\<rparr>]"
        "''2024-01-01T00:00:00.000Z''" "''boq-1''"]
    two_resources_fetched two_resources_fetched_rejecting
  by (simp add: strict_step_def response_success_def
      two_resources_store_def empty_store_def reference_resource_def calculateResourceBoQ_def Let_def)

text \<open>
  C4 as stated fails: for the batch of one valid resource and one without machine type
  the run never reports one processed resource. With a store that accepts the insert it
  reports two, the second priced with the fallback estimate; with a store that rejects
  the insert (the results table declares \<open>machine_type\<close> as \<open>NOT NULL\<close>) it answers with
  status 500.
\<close>

theorem batch_partial_failure_counterexample:
  "response_success
     (fst (calculateBoQ two_resources_store ''2024-01-01T00:00:00.000Z'' ''boq-1'' no_filters))
   \<and> processed_count
        (fst (calculateBoQ two_resources_store ''2024-01-01T00:00:00.000Z'' ''boq-1'' no_filters))
       = Some 2
   \<and> map li_machine_type
        (snd (calculateBoQ two_resources_store ''2024-01-01T00:00:00.000Z'' ''boq-1'' no_filters))
       = [Some ''n1-standard-2'', None]
   \<and> fst (calculateBoQ (two_resources_store\<lparr>insert_rejected := True\<rparr>)
             ''2024-01-01T00:00:00.000Z'' ''boq-1'' no_filters)
       = Status500 StoreError"
  using calculateBoQ_ok
    [OF two_resources_fetched, of "''2024-01-01T00:00:00.000Z''" "''boq-1''"]
    calculateBoQ_insert_rejected
    [OF two_resources_fetched_rejecting, of "''2024-01-01T00:00:00.000Z''" "''boq-1''"]
  by (simp add: processed_count_def response_success_def two_resources_store_def empty_store_def
      calculateResourceBoQ_def Let_def reference_resource_def)

subsection \<open>Double-precision numbers\<close>

text \<open>
  \<open>pow2\<close> is the power of two, and \<open>exponent_of\<close> the binary exponent of a positive
  number.
\<close>

lemma pow2_powr: "pow2 e = 2 powr real_of_int e"
  by (simp add: pow2_def powr_real_of_int inverse_eq_divide)

lemma pow2_pos [simp]: "0 < pow2 e"
  by (simp add: pow2_powr)

lemma pow2_add: "pow2 (a + b) = pow2 a * pow2 b"
  by (simp add: pow2_powr powr_add)

lemma pow2_less_iff [simp]: "pow2 a < pow2 b \<longleftrightarrow> a < b"
  by (simp add: pow2_powr)

lemma pow2_le_iff [simp]: "pow2 a \<le> pow2 b \<longleftrightarrow> a \<le> b"
  by (simp add: pow2_powr)

lemma pow2_nat: "0 \<le> e \<Longrightarrow> pow2 e = 2 ^ nat e"
  by (simp add: pow2_def)

lemma pow2_neg: "0 \<le> j \<Longrightarrow> pow2 (- j) = 1 / 2 ^ nat j"
  by (cases "j = 0") (simp_all add: pow2_def)

lemma exponent_of_bounds:
  assumes "0 < x"
  shows "pow2 (exponent_of x) \<le> x \<and> x < pow2 (exponent_of x + 1)"
proof (cases "1 \<le> x")
  case True
  define n where "n = \<lfloor>x\<rfloor>"
  define b where "b = bitlen n"
  from True have n: "0 < n" by (simp add: n_def)
  from bitlen_bounds [OF n] have lo: "2 ^ nat (b - 1) \<le> n" and hi: "n < 2 ^ nat b"
    by (simp_all add: b_def)
  from n have b1: "1 \<le> b"
    using bitlen_eq_zero_iff [of n] bitlen_nonneg [of n] unfolding b_def by linarith
  from lo have "real_of_int (2 ^ nat (b - 1)) \<le> x"
    unfolding n_def by (simp only: le_floor_iff)
  then have l: "(2::real) ^ nat (b - 1) \<le> x" by simp
  from hi have "x < real_of_int (2 ^ nat b)"
    unfolding n_def by (simp only: floor_less_iff)
  then have h: "x < 2 ^ nat b" by simp
  have e: "exponent_of x = b - 1" using True by (simp add: exponent_of_def b_def n_def)
  have "pow2 (b - 1) = 2 ^ nat (b - 1)" "pow2 (b - 1 + 1) = 2 ^ nat b"
    using b1 by (simp_all add: pow2_nat)
  with l h show ?thesis unfolding e by simp
next
  case False
  with assms have y: "1 < 1 / x" by simp
  define c where "c = \<lceil>1 / x\<rceil>"
  define j where "j = bitlen (c - 1)"
  from y have "1 < c" unfolding c_def by (simp only: less_ceiling_iff of_int_1)
  then have c: "0 < c - 1" by simp
  from bitlen_bounds [OF c] have lo: "2 ^ nat (j - 1) \<le> c - 1" and hi: "c - 1 < 2 ^ nat j"
    by (simp_all add: j_def)
  from c have j1: "1 \<le> j"
    using bitlen_eq_zero_iff [of "c - 1"] bitlen_nonneg [of "c - 1"] unfolding j_def by linarith
  from lo have "2 ^ nat (j - 1) < c" by simp
  then have "real_of_int (2 ^ nat (j - 1)) < 1 / x"
    unfolding c_def by (simp only: less_ceiling_iff)
  then have l: "(2::real) ^ nat (j - 1) < 1 / x" by simp
  from hi have "c \<le> 2 ^ nat j" by simp
  then have "1 / x \<le> real_of_int (2 ^ nat j)"
    unfolding c_def by (simp only: ceiling_le_iff)
  then have h: "1 / x \<le> 2 ^ nat j" by simp
  have e: "exponent_of x = - j" using False by (simp add: exponent_of_def j_def c_def)
  have p1: "pow2 (- j) = 1 / 2 ^ nat j" using j1 by (simp add: pow2_neg)
  have "pow2 (- (j - 1)) = 1 / 2 ^ nat (j - 1)" using j1 by (intro pow2_neg) simp
  then have p2: "pow2 (- j + 1) = 1 / 2 ^ nat (j - 1)" by simp
  have pj: "(0::real) < 2 ^ nat j" "(0::real) < 2 ^ nat (j - 1)" by simp_all
  from h assms pj(1) have "1 \<le> x * 2 ^ nat j"
    by (simp add: pos_divide_le_eq mult.commute)
  with pj(1) have a: "1 / 2 ^ nat j \<le> x" by (simp add: pos_divide_le_eq)
  from l assms have "x * 2 ^ nat (j - 1) < 1"
    by (simp add: pos_less_divide_eq mult.commute)
  with pj(2) have b: "x < 1 / 2 ^ nat (j - 1)" by (simp add: pos_less_divide_eq)
  from a b show ?thesis unfolding e p1 p2 by simp
qed

lemma exponent_of_unique:
  assumes "0 < x" and "pow2 e \<le> x" and "x < pow2 (e + 1)"
  shows "exponent_of x = e"
proof -
  from exponent_of_bounds [OF assms(1)]
  have a: "pow2 (exponent_of x) \<le> x" and b: "x < pow2 (exponent_of x + 1)" by simp_all
  from a assms(3) have "pow2 (exponent_of x) < pow2 (e + 1)" by linarith
  moreover from assms(2) b have "pow2 e < pow2 (exponent_of x + 1)" by linarith
  ultimately have "exponent_of x < e + 1" "e < exponent_of x + 1"
    by (simp_all only: pow2_less_iff)
  then show ?thesis by linarith
qed

lemma pow2_nonzero [simp]: "pow2 e \<noteq> 0"
  by (metis less_irrefl pow2_pos)

lemma ties_even_of_int [simp]: "ties_even (of_int k) = k"
  by (simp add: ties_even_def)

lemma ties_even_bounds: "\<lfloor>m\<rfloor> \<le> ties_even m \<and> ties_even m \<le> \<lfloor>m\<rfloor> + 1"
  by (simp add: ties_even_def Let_def)

lemma round_double_pos:
  "0 < x \<Longrightarrow> round_double x =
     of_int (ties_even (x / pow2 (max (exponent_of x) (- 1022) - 52)))
       * pow2 (max (exponent_of x) (- 1022) - 52)"
  by (simp add: round_double_def Let_def)

lemma round_double_minus: "round_double (- x) = - round_double x"
  by (simp add: round_double_def Let_def)

lemma pow2_numeral [simp]: "pow2 52 = 2 ^ 52" "pow2 53 = 2 ^ 53"
  by (simp_all add: pow2_def)

text \<open>
  \<open>round_double\<close> leaves a number of the double-precision grid as it is. So rounding
  twice is rounding once, and every integer up to \<open>2 ^ 53\<close> in magnitude is a double.
\<close>

lemma scaled_significand_fixed:
  assumes k: "1 \<le> k" "k \<le> 2 ^ 53" and e: "- 1022 \<le> e" and n: "2 ^ 52 \<le> k \<or> e = - 1022"
  shows "round_double (of_int k * pow2 (e - 52)) = of_int k * pow2 (e - 52)"
proof -
  define u where "u = pow2 (e - 52)"
  define a where "a = real_of_int k * u"
  have u: "0 < u" by (simp add: u_def)
  have a: "0 < a" using k(1) u by (simp add: a_def)
  have lo52: "pow2 e = 2 ^ 52 * u"
    using pow2_add [of 52 "e - 52"] by (simp add: u_def)
  have hi53: "pow2 (e + 1) = 2 ^ 53 * u"
    using pow2_add [of 53 "e - 52"] by (simp add: u_def add.commute)
  have kr: "real_of_int k \<le> 2 ^ 53" using k(2) by simp
  consider (top) "k = 2 ^ 53" | (normal) "2 ^ 52 \<le> k" "k < 2 ^ 53" | (sub) "k < 2 ^ 52"
    using k(2) by linarith
  then have "of_int (ties_even (a / pow2 (max (exponent_of a) (- 1022) - 52)))
       * pow2 (max (exponent_of a) (- 1022) - 52) = a"
  proof cases
    case top
    then have av: "a = pow2 (e + 1)" by (simp add: a_def hi53)
    have "exponent_of a = e + 1"
      by (rule exponent_of_unique [OF a]) (simp_all add: av)
    with e have m: "max (exponent_of a) (- 1022) - 52 = e - 51" by simp
    have "pow2 (e + 1) = pow2 52 * pow2 (e - 51)"
      using pow2_add [of 52 "e - 51"] by (simp add: add.commute)
    then have av': "a = real_of_int (2 ^ 52) * pow2 (e - 51)" by (simp add: av)
    have "a / pow2 (e - 51) = real_of_int (2 ^ 52)" unfolding av' by simp
    then have "ties_even (a / pow2 (e - 51)) = 2 ^ 52" by (simp only: ties_even_of_int)
    then show ?thesis unfolding m using av' by simp
  next
    case normal
    have "real_of_int (2 ^ 52) \<le> real_of_int k" using normal(1) by (simp only: of_int_le_iff)
    then have "2 ^ 52 * u \<le> a" using u by (simp add: a_def)
    then have l: "pow2 e \<le> a" by (simp add: lo52)
    have "real_of_int k < real_of_int (2 ^ 53)" using normal(2) by (simp only: of_int_less_iff)
    then have "a < 2 ^ 53 * u" using u by (simp add: a_def)
    then have h: "a < pow2 (e + 1)" by (simp add: hi53)
    have "exponent_of a = e" by (rule exponent_of_unique [OF a l h])
    with e have m: "max (exponent_of a) (- 1022) - 52 = e - 52" by simp
    have "a / pow2 (e - 52) = real_of_int k" using u by (simp add: a_def u_def)
    then show ?thesis unfolding m by (simp add: a_def u_def)
  next
    case sub
    with n have e': "e = - 1022" by simp
    have "real_of_int k < real_of_int (2 ^ 52)" using sub by (simp only: of_int_less_iff)
    then have "a < 2 ^ 52 * u" using u by (simp add: a_def)
    then have h: "a < pow2 e" by (simp add: lo52)
    from exponent_of_bounds [OF a] have "pow2 (exponent_of a) \<le> a" by simp
    with h have "pow2 (exponent_of a) < pow2 e" by linarith
    then have "exponent_of a < e" by (simp only: pow2_less_iff)
    with e' have m: "max (exponent_of a) (- 1022) - 52 = e - 52" by simp
    have "a / pow2 (e - 52) = real_of_int k" using u by (simp add: a_def u_def)
    then show ?thesis unfolding m by (simp add: a_def u_def)
  qed
  with round_double_pos [OF a] show ?thesis by (simp add: a_def u_def)
qed

lemma significand_range:
  assumes "0 < a"
  defines "e \<equiv> max (exponent_of a) (- 1022)"
  defines "k \<equiv> ties_even (a / pow2 (e - 52))"
  shows "0 \<le> k \<and> k \<le> 2 ^ 53 \<and> (2 ^ 52 \<le> k \<or> e = - 1022)"
proof -
  define u where "u = pow2 (e - 52)"
  have u: "0 < u" by (simp add: u_def)
  have hi53: "pow2 (e + 1) = 2 ^ 53 * u"
    using pow2_add [of 53 "e - 52"] by (simp add: u_def add.commute)
  have lo52: "pow2 e = 2 ^ 52 * u"
    using pow2_add [of 52 "e - 52"] by (simp add: u_def)
  from exponent_of_bounds [OF assms(1)]
  have b: "pow2 (exponent_of a) \<le> a" "a < pow2 (exponent_of a + 1)" by simp_all
  have "pow2 (exponent_of a + 1) \<le> pow2 (e + 1)" by (simp add: e_def)
  with b(2) have "a < 2 ^ 53 * u" by (simp add: hi53)
  then have "a / u < real_of_int (2 ^ 53)" using u by (simp add: pos_divide_less_eq)
  then have "\<lfloor>a / u\<rfloor> < 2 ^ 53" by (simp only: floor_less_iff)
  with ties_even_bounds [of "a / u"] have "ties_even (a / u) \<le> 2 ^ 53" by linarith
  then have k1: "k \<le> 2 ^ 53" by (simp only: k_def u_def)
  have "0 \<le> a / u" using assms(1) u by simp
  then have "0 \<le> \<lfloor>a / u\<rfloor>" by simp
  with ties_even_bounds [of "a / u"] have "0 \<le> ties_even (a / u)" by linarith
  then have k0: "0 \<le> k" by (simp only: k_def u_def)
  have k2: "2 ^ 52 \<le> k \<or> e = - 1022"
  proof (cases "- 1022 \<le> exponent_of a")
    case True
    then have ee: "exponent_of a = e" by (simp add: e_def)
    from b(1) have "pow2 e \<le> a" by (simp only: ee)
    then have "2 ^ 52 * u \<le> a" by (simp only: lo52)
    then have "real_of_int (2 ^ 52) \<le> a / u" using u by (simp add: pos_le_divide_eq)
    then have "2 ^ 52 \<le> \<lfloor>a / u\<rfloor>" by (simp only: le_floor_iff)
    with ties_even_bounds [of "a / u"] have "2 ^ 52 \<le> ties_even (a / u)" by linarith
    then show ?thesis by (simp only: k_def u_def) simp
  next
    case False
    then show ?thesis by (simp add: e_def)
  qed
  from k0 k1 k2 show ?thesis by blast
qed

lemma round_double_idem_pos:
  assumes "0 < x"
  shows "round_double (round_double x) = round_double x"
proof -
  define e where "e = max (exponent_of x) (- 1022)"
  define k where "k = ties_even (x / pow2 (e - 52))"
  from significand_range [OF assms]
  have r: "0 \<le> k" "k \<le> 2 ^ 53" "2 ^ 52 \<le> k \<or> e = - 1022"
    by (simp_all add: k_def e_def)
  have y: "round_double x = of_int k * pow2 (e - 52)"
    using round_double_pos [OF assms] by (simp add: k_def e_def)
  show ?thesis
  proof (cases "k = 0")
    case True
    with y show ?thesis by (simp add: round_double_def)
  next
    case False
    with r(1) have "1 \<le> k" by simp
    from scaled_significand_fixed [OF this r(2) _ r(3)] show ?thesis
      unfolding y by (simp add: e_def)
  qed
qed

lemma round_double_idem: "round_double (round_double x) = round_double x"
proof -
  consider "x = 0" | "0 < x" | "x < 0" by linarith
  then show ?thesis
  proof cases
    case 1
    then show ?thesis by (simp add: round_double_def)
  next
    case 2
    then show ?thesis by (rule round_double_idem_pos)
  next
    case 3
    then have "0 < - x" by simp
    from round_double_idem_pos [OF this] show ?thesis
      by (simp add: round_double_minus)
  qed
qed

lemma round_double_nat_exact:
  assumes "0 < n" and "n \<le> 2 ^ 53"
  shows "round_double (of_int n) = of_int n"
proof (cases "n = 2 ^ 53")
  case True
  have "round_double (of_int (2 ^ 53) * pow2 (52 - 52)) = of_int (2 ^ 53) * pow2 (52 - 52)"
    by (rule scaled_significand_fixed) simp_all
  then show ?thesis using True by (simp add: pow2_def)
next
  case False
  with assms have lt: "n < 2 ^ 53" by simp
  define e where "e = exponent_of (real_of_int n)"
  have pos: "0 < real_of_int n" using assms by simp
  from exponent_of_bounds [OF pos]
  have b: "pow2 e \<le> real_of_int n" "real_of_int n < pow2 (e + 1)" by (simp_all add: e_def)
  have "real_of_int n < pow2 53" using lt by simp
  with b(1) have "pow2 e < pow2 53" by linarith
  then have e53: "e < 53" by (simp only: pow2_less_iff)
  have "pow2 0 \<le> real_of_int n" using assms by (simp add: pow2_def)
  with b(2) have "pow2 0 < pow2 (e + 1)" by linarith
  then have "0 < e + 1" by (simp only: pow2_less_iff)
  then have e0: "0 \<le> e" by simp
  define s where "s = nat (52 - e)"
  define k where "k = n * 2 ^ s"
  have ps: "pow2 (e - 52) = 1 / 2 ^ s"
    using pow2_neg [of "52 - e"] e53 by (simp add: s_def)
  have nk: "real_of_int k * pow2 (e - 52) = real_of_int n" by (simp add: k_def ps)
  have pe: "pow2 e = 2 ^ nat e" using e0 by (simp add: pow2_nat)
  have sum: "nat e + s = 52" using e0 e53 by (simp add: s_def)
  have "(2::real) ^ 52 = 2 ^ (nat e + s)" by (simp only: sum)
  also have "\<dots> = 2 ^ nat e * 2 ^ s" by (rule power_add)
  also have "\<dots> \<le> real_of_int n * 2 ^ s" using b(1) by (simp add: pe)
  finally have "real_of_int (2 ^ 52) \<le> real_of_int k" by (simp add: k_def)
  then have k52: "2 ^ 52 \<le> k" by (simp only: of_int_le_iff)
  have pe1: "pow2 (e + 1) = 2 ^ nat e * 2" using e0 by (simp add: pow2_nat nat_add_distrib)
  have "real_of_int n * 2 ^ s < 2 ^ nat e * 2 * 2 ^ s" using b(2) by (simp add: pe1)
  also have "\<dots> = 2 ^ (nat e + s) * 2" by (simp only: power_add mult_ac)
  also have "\<dots> = 2 ^ 53" by (simp only: sum) simp
  finally have "real_of_int k < real_of_int (2 ^ 53)" by (simp add: k_def)
  then have "k < 2 ^ 53" by (simp only: of_int_less_iff)
  then have k53: "k \<le> 2 ^ 53" by simp
  from k52 have k1: "1 \<le> k" by simp
  from scaled_significand_fixed [OF k1 k53, of e] k52 e0
  have "round_double (real_of_int k * pow2 (e - 52)) = real_of_int k * pow2 (e - 52)" by simp
  then show ?thesis by (simp only: nk)
qed

lemma round_double_int_exact:
  assumes "\<bar>n\<bar> \<le> 2 ^ 53"
  shows "round_double (of_int n) = of_int n"
proof -
  consider "n = 0" | "0 < n" | "n < 0" by linarith
  then show ?thesis
  proof cases
    case 1
    then show ?thesis by (simp add: round_double_def)
  next
    case 2
    with assms show ?thesis by (intro round_double_nat_exact) simp_all
  next
    case 3
    with assms have "round_double (of_int (- n)) = of_int (- n)"
      by (intro round_double_nat_exact) simp_all
    then show ?thesis by (simp add: round_double_minus)
  qed
qed

text \<open>
  The result of \<open>round_double\<close> is within half a unit in the last place of its argument.
\<close>

lemma ties_even_nearest: "\<bar>real_of_int (ties_even m) - m\<bar> \<le> 1 / 2"
  by (simp add: ties_even_def Let_def)

lemma round_double_nearest:
  assumes "0 < x"
  shows "\<bar>round_double x - x\<bar> \<le> pow2 (max (exponent_of x) (- 1022) - 52) / 2"
proof -
  define u where "u = pow2 (max (exponent_of x) (- 1022) - 52)"
  have u: "0 < u" by (simp add: u_def)
  have "round_double x - x = (real_of_int (ties_even (x / u)) - x / u) * u"
    using round_double_pos [OF assms] u by (simp add: u_def algebra_simps)
  then have "\<bar>round_double x - x\<bar> = \<bar>real_of_int (ties_even (x / u)) - x / u\<bar> * u"
    using u by (simp add: abs_mult)
  also have "\<dots> \<le> 1 / 2 * u"
    using ties_even_nearest [of "x / u"] u by (intro mult_right_mono) simp_all
  finally show ?thesis by (simp add: u_def)
qed

subsection \<open>The normalizer\<close>

lemma int_or_zero_Some [simp]: "int_or_zero (Some n) = n"
  by (simp add: int_or_zero_def)

lemma extractPricingInfo_price:
  assumes "extractPricingInfo d t s sn sid = Some e"
  shows "\<exists>m. first_unit_price s = Some m \<and> cat_price_per_unit e = price_of m \<and> price_of m \<noteq> 0"
  using assms
  by (auto simp: extractPricingInfo_def first_unit_price_def Let_def
      split: option.splits list.splits if_splits)

lemma extractPricingInfo_kept:
  assumes "first_unit_price s = Some m" and "price_of m \<noteq> 0"
  shows "\<exists>e. extractPricingInfo d t s sn sid = Some e \<and> cat_price_per_unit e = price_of m"
  using assms
  by (auto simp: extractPricingInfo_def first_unit_price_def Let_def
      split: option.splits list.splits if_splits)

text \<open>
  Without a whole part the conversion rounds once: the integer \<open>nanos\<close> is a double, the
  division rounds, and adding 0 changes nothing.
\<close>

lemma price_of_units_zero:
  assumes u: "int_or_zero (units m) = 0" and n: "\<bar>int_or_zero (nanos m)\<bar> \<le> 2 ^ 53"
  shows "price_of m = round_double (real_of_int (int_or_zero (nanos m)) / 10 ^ 9)"
proof -
  have z: "js_number 0 = 0" by (simp add: js_number_def round_double_def)
  have i: "js_number (int_or_zero (nanos m)) = real_of_int (int_or_zero (nanos m))"
    unfolding js_number_def by (rule round_double_int_exact [OF n])
  have "price_of m = round_double (round_double (real_of_int (int_or_zero (nanos m)) / 1000000000))"
    by (simp add: price_of_def u z i js_add_def js_div_def)
  then show ?thesis by (simp add: round_double_idem)
qed

lemma round_double_sample: "round_double 0.0475 = 3422735716801577 / 72057594037927936"
  by code_simp

lemma price_of_sample:
  "price_of \<lparr>currencyCode = cc, units = Some 0, nanos = Some 47500000\<rparr> = round_double 0.0475"
proof -
  have "price_of \<lparr>currencyCode = cc, units = Some 0, nanos = Some 47500000\<rparr>
      = round_double (real_of_int 47500000 / 10 ^ 9)"
    using price_of_units_zero [of "\<lparr>currencyCode = cc, units = Some 0, nanos = Some 47500000\<rparr>"]
    by simp
  also have "real_of_int 47500000 / 10 ^ 9 = 0.0475" by simp
  finally show ?thesis .
qed

lemma sample_first_unit_price:
  "first_unit_price sample_sku = Some \<lparr>currencyCode = Some ''USD'', units = Some 0, nanos = Some 47500000\<rparr>"
  by (simp add: first_unit_price_def sample_sku_def)

text \<open>
  C7, as amended. Every entry that the updater's \<open>extractPricingInfo\<close> returns has, as
  its \<open>price_per_unit\<close>, the double-precision result of \<open>nanos / 1e9 + units\<close> on the unit
  price of the first tier (an absent part counts as 0): the division is rounded to a
  double, and so is the sum. That price is not zero. When the whole part is 0 and
  \<open>nanos\<close> is at most \<open>2 ^ 53\<close> in magnitude, the price is the double nearest to
  \<open>nanos / 1e9\<close>; so a SKU whose first unit price is \<open>{units: 0, nanos: 47500000}\<close> is
  kept, with the double nearest to 0.0475 as its price, which is the value of the
  literal \<open>0.0475\<close>.
\<close>

theorem unit_price_conversion:
  "(\<forall>e. extractPricingInfo d t s sn sid = Some e \<longrightarrow>
      (\<exists>m. first_unit_price s = Some m
         \<and> cat_price_per_unit e
             = round_double
                 (round_double (round_double (real_of_int (int_or_zero (nanos m))) / 10 ^ 9)
                  + round_double (real_of_int (int_or_zero (units m))))
         \<and> cat_price_per_unit e \<noteq> 0
         \<and> (int_or_zero (units m) = 0 \<and> \<bar>int_or_zero (nanos m)\<bar> \<le> 2 ^ 53 \<longrightarrow>
              cat_price_per_unit e
                = round_double (real_of_int (int_or_zero (nanos m)) / 10 ^ 9))))
   \<and> (first_unit_price s = Some \<lparr>currencyCode = cc, units = Some 0, nanos = Some 47500000\<rparr> \<longrightarrow>
      (\<exists>e. extractPricingInfo d t s sn sid = Some e \<and> cat_price_per_unit e = round_double 0.0475))"
proof (intro conjI impI allI)
  fix e
  assume "extractPricingInfo d t s sn sid = Some e"
  from extractPricingInfo_price [OF this] obtain m where
    m: "first_unit_price s = Some m" "cat_price_per_unit e = price_of m" "price_of m \<noteq> 0"
    by blast
  have "price_of m
      = round_double
          (round_double (round_double (real_of_int (int_or_zero (nanos m))) / 10 ^ 9)
           + round_double (real_of_int (int_or_zero (units m))))"
    by (simp add: price_of_def js_add_def js_div_def js_number_def)
  with m price_of_units_zero [of m]
  show "\<exists>m. first_unit_price s = Some m
         \<and> cat_price_per_unit e
             = round_double
                 (round_double (round_double (real_of_int (int_or_zero (nanos m))) / 10 ^ 9)
                  + round_double (real_of_int (int_or_zero (units m))))
         \<and> cat_price_per_unit e \<noteq> 0
         \<and> (int_or_zero (units m) = 0 \<and> \<bar>int_or_zero (nanos m)\<bar> \<le> 2 ^ 53 \<longrightarrow>
              cat_price_per_unit e
                = round_double (real_of_int (int_or_zero (nanos m)) / 10 ^ 9))"
    by auto
next
  assume m: "first_unit_price s = Some \<lparr>currencyCode = cc, units = Some 0, nanos = Some 47500000\<rparr>"
  have "price_of \<lparr>currencyCode = cc, units = Some 0, nanos = Some 47500000\<rparr> \<noteq> 0"
    unfolding price_of_sample round_double_sample by simp
  from extractPricingInfo_kept [OF m this, of d t sn sid]
  show "\<exists>e. extractPricingInfo d t s sn sid = Some e \<and> cat_price_per_unit e = round_double 0.0475"
    by (simp add: price_of_sample)
qed

text \<open>
  C7 on the sample SKU: the entry is kept, and its price is the double nearest to
  0.0475, which is \<open>3422735716801577 / 2 ^ 56\<close>.
\<close>

theorem unit_price_conversion_witness:
  "map_option cat_price_per_unit
     (extractPricingInfo 19800 ''2024-03-18T02:00:00.000Z'' sample_sku ''Compute Engine'' ''6F81-5844-456A'')
     = Some (round_double 0.0475)
   \<and> round_double 0.0475 = 3422735716801577 / 72057594037927936"
  using unit_price_conversion
    [of 19800 "''2024-03-18T02:00:00.000Z''" sample_sku "''Compute Engine''" "''6F81-5844-456A''"
        "Some ''USD''"]
    sample_first_unit_price round_double_sample
  by auto

text \<open>
  C7 as stated fails: the conversion is not exact. For the unit price
  \<open>{units: 2, nanos: 656212475}\<close> the updater stores \<open>747657344539179 / 2 ^ 48\<close>, which
  JavaScript prints as 2.6562124750000002. That is neither \<open>2 + 656212475 / 1e9\<close> nor
  the double nearest to it, \<open>5981258756313431 / 2 ^ 51\<close>, which is the value of the
  literal \<open>2.656212475\<close>: the division and the sum have each rounded.
\<close>

theorem unit_price_conversion_counterexample:
  "map_option cat_price_per_unit
     (extractPricingInfo 19800 ''2024-03-18T02:00:00.000Z'' drifting_sku ''Compute Engine'' ''6F81-5844-456A'')
     = Some (747657344539179 / 281474976710656)
   \<and> (747657344539179 / 281474976710656 :: real) \<noteq> 2 + 656212475 / 10 ^ 9
   \<and> round_double (2 + 656212475 / 10 ^ 9) = 5981258756313431 / 2251799813685248
   \<and> (747657344539179 / 281474976710656 :: real) \<noteq> 5981258756313431 / 2251799813685248"
proof (intro conjI)
  show "map_option cat_price_per_unit
     (extractPricingInfo 19800 ''2024-03-18T02:00:00.000Z'' drifting_sku ''Compute Engine'' ''6F81-5844-456A'')
     = Some (747657344539179 / 281474976710656)"
    by code_simp
  show "(747657344539179 / 281474976710656 :: real) \<noteq> 2 + 656212475 / 10 ^ 9"
    by simp
  show "round_double (2 + 656212475 / 10 ^ 9) = 5981258756313431 / 2251799813685248"
    by code_simp
  show "(747657344539179 / 281474976710656 :: real) \<noteq> 5981258756313431 / 2251799813685248"
    by simp
qed

subsection \<open>The description parser\<close>

lemma early_blocks_keep:
  "diskType (extract_family_and_type desc info) = diskType info"
  "category (extract_family_and_type desc info) = category info"
  "diskType (fetcher_extract_family_and_type desc info) = diskType info"
  "category (fetcher_extract_family_and_type desc info) = category info"
  "diskType (extract_vcpu desc info) = diskType info"
  "category (extract_vcpu desc info) = category info"
  "diskType (extract_memory desc info) = diskType info"
  "category (extract_memory desc info) = category info"
  by (simp_all add: extract_family_and_type_def fetcher_extract_family_and_type_def
      extract_vcpu_def extract_memory_def Let_def split: option.splits)

lemma later_blocks_keep_diskType:
  "diskType (detect_gpu desc info) = diskType info"
  "diskType (detect_usage_types desc info) = diskType info"
  "diskType (detect_commitment_terms desc info) = diskType info"
  "diskType (detect_network_tiers desc info) = diskType info"
  "diskType (detect_scope desc info) = diskType info"
  "diskType (fetcher_detect_gpu desc info) = diskType info"
  "diskType (fetcher_detect_preemptible desc info) = diskType info"
  "diskType (fetcher_detect_commitment_terms desc info) = diskType info"
  by (simp_all add: detect_gpu_def detect_usage_types_def detect_commitment_terms_def
      detect_network_tiers_def detect_scope_def fetcher_detect_gpu_def
      fetcher_detect_preemptible_def fetcher_detect_commitment_terms_def Let_def
      split: option.splits prod.splits)

lemma later_blocks_category:
  "category (detect_gpu desc info) =
     (if js_includes desc ''gpu'' \<or> js_includes desc ''nvidia'' \<or> js_includes desc ''tesla''
      then ''gpu'' else category info)"
  "category (detect_usage_types desc info) = category info"
  "category (detect_commitment_terms desc info) = category info"
  "category (detect_network_tiers desc info) =
     (if js_includes desc ''premium''
         \<or> js_includes desc ''standard''
           \<and> (js_includes desc ''network'' \<or> js_includes desc ''egress'' \<or> js_includes desc ''ip'')
      then ''network'' else category info)"
  "category (detect_scope desc info) = category info"
  by (simp_all add: detect_gpu_def detect_usage_types_def detect_commitment_terms_def
      detect_network_tiers_def detect_scope_def Let_def split: option.splits prod.splits)

lemma updater_disk_type:
  "diskType (extractMachineInfo d) =
     (if js_includes (toLowerCase d) ''ssd'' then Some ''pd-ssd''
      else if js_includes (toLowerCase d) ''balanced'' then Some ''pd-balanced''
      else if js_includes (toLowerCase d) ''standard''
              \<and> (js_includes (toLowerCase d) ''disk'' \<or> js_includes (toLowerCase d) ''storage'')
      then Some ''pd-standard''
      else None)"
  by (simp add: extractMachineInfo_def Let_def later_blocks_keep_diskType early_blocks_keep
      detect_categories_def initial_info_def)

lemma updater_category:
  "category (extractMachineInfo d) =
     (if js_includes (toLowerCase d) ''premium''
         \<or> js_includes (toLowerCase d) ''standard''
           \<and> (js_includes (toLowerCase d) ''network'' \<or> js_includes (toLowerCase d) ''egress''
              \<or> js_includes (toLowerCase d) ''ip'')
      then ''network''
      else if js_includes (toLowerCase d) ''gpu'' \<or> js_includes (toLowerCase d) ''nvidia''
              \<or> js_includes (toLowerCase d) ''tesla''
      then ''gpu''
      else if diskType (extractMachineInfo d) \<noteq> None then ''storage''
      else ''compute'')"
  unfolding updater_disk_type
  by (simp add: extractMachineInfo_def Let_def later_blocks_category early_blocks_keep
      detect_categories_def initial_info_def)

lemma fetcher_disk_type:
  "diskType (fetcher_extractMachineInfo d) =
     (if js_includes (toLowerCase d) ''ssd'' then Some ''pd-ssd''
      else if js_includes (toLowerCase d) ''standard'' then Some ''pd-standard''
      else if js_includes (toLowerCase d) ''balanced'' then Some ''pd-balanced''
      else None)"
  by (simp add: fetcher_extractMachineInfo_def Let_def later_blocks_keep_diskType early_blocks_keep
      fetcher_detect_disk_types_def initial_info_def)

text \<open>
  C8. The updater's parser follows the rule of the claim, as \<open>updater_disk_type\<close> and
  \<open>updater_category\<close> show (the category of the disk rule stands unless the later GPU
  or network rule sets its own). The fetcher's copy of the parser does not: it takes
  \<open>standard\<close> for a disk type without asking for \<open>disk\<close> or \<open>storage\<close>, and it tests
  \<open>standard\<close> before \<open>balanced\<close>. For a description that names the machine type
  \<open>n1-standard-4\<close> the updater returns no disk type and the category \<open>compute\<close>, the
  fetcher the disk type \<open>pd-standard\<close> and the category \<open>storage\<close>.
\<close>

theorem fetcher_standard_without_disk:
  "machineType (extractMachineInfo ''N1-Standard-4 Instance running in Americas'') = Some ''n1-standard-4''
   \<and> diskType (extractMachineInfo ''N1-Standard-4 Instance running in Americas'') = None
   \<and> category (extractMachineInfo ''N1-Standard-4 Instance running in Americas'') = ''compute''
   \<and> machineType (fetcher_extractMachineInfo ''N1-Standard-4 Instance running in Americas'')
       = Some ''n1-standard-4''
   \<and> diskType (fetcher_extractMachineInfo ''N1-Standard-4 Instance running in Americas'')
       = Some ''pd-standard''
   \<and> category (fetcher_extractMachineInfo ''N1-Standard-4 Instance running in Americas'')
       = ''storage''"
  by code_simp

subsection \<open>The refresh run\<close>

lemma insert_batches_thrown:
  "fst (insert_batches env pricingData i tbl) =
     (if \<exists>k. i + 1000 * k < length pricingData \<and> batch_rejected env ((i + 1000 * k) div 1000)
      then Some StoreError else None)"
proof (induction env pricingData i tbl rule: insert_batches.induct)
  case (1 env pricingData i tbl)
  show ?case
  proof (cases "i < length pricingData")
    case False
    then show ?thesis by (subst insert_batches.simps) simp
  next
    case inside: True
    show ?thesis
    proof (cases "batch_rejected env (i div 1000)")
      case True
      with inside have "\<exists>k. i + 1000 * k < length pricingData
          \<and> batch_rejected env ((i + 1000 * k) div 1000)"
        by (intro exI [of _ 0]) simp
      with inside True show ?thesis by (subst insert_batches.simps) simp
    next
      case False
      have shift: "(\<exists>k. i + 1000 * k < length pricingData
                      \<and> batch_rejected env ((i + 1000 * k) div 1000))
                 \<longleftrightarrow> (\<exists>k. i + 1000 + 1000 * k < length pricingData
                      \<and> batch_rejected env ((i + 1000 + 1000 * k) div 1000))"
      proof
        assume "\<exists>k. i + 1000 * k < length pricingData
                      \<and> batch_rejected env ((i + 1000 * k) div 1000)"
        then obtain k where k: "i + 1000 * k < length pricingData"
          "batch_rejected env ((i + 1000 * k) div 1000)" by blast
        with False have "k \<noteq> 0" by (cases k) auto
        then obtain k' where "k = Suc k'" by (cases k) auto
        with k show "\<exists>k. i + 1000 + 1000 * k < length pricingData
                      \<and> batch_rejected env ((i + 1000 + 1000 * k) div 1000)"
          by (intro exI [of _ k']) (simp add: algebra_simps)
      next
        assume "\<exists>k. i + 1000 + 1000 * k < length pricingData
                      \<and> batch_rejected env ((i + 1000 + 1000 * k) div 1000)"
        then obtain k where "i + 1000 + 1000 * k < length pricingData"
          "batch_rejected env ((i + 1000 + 1000 * k) div 1000)" by blast
        then show "\<exists>k. i + 1000 * k < length pricingData
                      \<and> batch_rejected env ((i + 1000 * k) div 1000)"
          by (intro exI [of _ "Suc k"]) (simp add: algebra_simps)
      qed
      from inside False "1.IH" [of 1000]
      have "fst (insert_batches env pricingData i tbl) =
          (if \<exists>k. i + 1000 + 1000 * k < length pricingData
                \<and> batch_rejected env ((i + 1000 + 1000 * k) div 1000)
           then Some StoreError else None)"
        by (subst insert_batches.simps) simp
      with shift show ?thesis by simp
    qed
  qed
qed

lemma insertPricingData_thrown:
  "fst (insertPricingData env pricingData tbl) =
     (if \<exists>b. 1000 * b < length pricingData \<and> batch_rejected env b then Some StoreError else None)"
  using insert_batches_thrown [of env pricingData 0 tbl]
  by (simp add: insertPricingData_def)

lemma updatePricingCatalog_outcome:
  "fst (updatePricingCatalog env tbl) =
     (let n = length (fetchServicePricing env ''6F81-5844-456A'' ''Compute Engine'')
      in if \<exists>b. 1000 * b < n \<and> batch_rejected env b then Inl StoreError
         else Inr \<lparr>upd_success = True, upd_timestamp = clock_now env, records_updated = n,
                   upd_report = upd_report (projr (fst (updatePricingCatalog env tbl)))\<rparr>)"
proof -
  let ?d = "fetchServicePricing env ''6F81-5844-456A'' ''Compute Engine''"
  let ?t1 = "markExistingPricingInactive env (clock_today env) tbl"
  show ?thesis
  proof (cases "length ?d > 0")
    case False
    then show ?thesis by (simp add: updatePricingCatalog_def Let_def)
  next
    case True
    obtain thrown t2 where ins: "insertPricingData env ?d ?t1 = (thrown, t2)"
      by (cases "insertPricingData env ?d ?t1")
    with insertPricingData_thrown [of env ?d ?t1]
    have th: "thrown = (if \<exists>b. 1000 * b < length ?d \<and> batch_rejected env b
                        then Some StoreError else None)" by simp
    show ?thesis using True ins th
      by (simp add: updatePricingCatalog_def Let_def)
  qed
qed

text \<open>
  C9. In a refresh run, a rejected step 1 (marking the active entries of earlier dates
  inactive) and a rejected step 3 (purging inactive entries older than 90 days) are
  caught: each function returns with the table unchanged, and the run answers with
  success whenever no batch of step 2 is rejected. A rejected batch of step 2 (the
  insert of the new entries) propagates: the run ends with that exception.
\<close>

theorem refresh_failure_policy:
  "(update_rejected env \<longrightarrow> markExistingPricingInactive env effectiveDate tbl = tbl)
   \<and> (delete_rejected env \<longrightarrow> cleanupOldPricingData env tbl = tbl)
   \<and> ((\<forall>b. 1000 * b < length (fetchServicePricing env ''6F81-5844-456A'' ''Compute Engine'')
            \<longrightarrow> \<not> batch_rejected env b) \<longrightarrow>
        (\<exists>res. fst (updatePricingCatalog env tbl) = Inr res \<and> upd_success res
           \<and> records_updated res
               = length (fetchServicePricing env ''6F81-5844-456A'' ''Compute Engine'')))
   \<and> ((\<exists>b. 1000 * b < length (fetchServicePricing env ''6F81-5844-456A'' ''Compute Engine'')
            \<and> batch_rejected env b) \<longrightarrow>
        fst (updatePricingCatalog env tbl) = Inl StoreError)"
proof (intro conjI impI)
  assume "update_rejected env"
  then show "markExistingPricingInactive env effectiveDate tbl = tbl"
    by (simp add: markExistingPricingInactive_def)
next
  assume "delete_rejected env"
  then show "cleanupOldPricingData env tbl = tbl"
    by (simp add: cleanupOldPricingData_def)
next
  assume "\<forall>b. 1000 * b < length (fetchServicePricing env ''6F81-5844-456A'' ''Compute Engine'')
            \<longrightarrow> \<not> batch_rejected env b"
  then have "\<not> (\<exists>b. 1000 * b < length (fetchServicePricing env ''6F81-5844-456A'' ''Compute Engine'')
            \<and> batch_rejected env b)" by blast
  with updatePricingCatalog_outcome [of env tbl]
  have "fst (updatePricingCatalog env tbl) =
      Inr \<lparr>upd_success = True, upd_timestamp = clock_now env,
           records_updated = length (fetchServicePricing env ''6F81-5844-456A'' ''Compute Engine''),
           upd_report = upd_report (projr (fst (updatePricingCatalog env tbl)))\<rparr>"
    by (simp add: Let_def)
  then show "\<exists>res. fst (updatePricingCatalog env tbl) = Inr res \<and> upd_success res
           \<and> records_updated res
               = length (fetchServicePricing env ''6F81-5844-456A'' ''Compute Engine'')"
    by (metis update_result.select_convs(1,3))
next
  assume "\<exists>b. 1000 * b < length (fetchServicePricing env ''6F81-5844-456A'' ''Compute Engine'')
            \<and> batch_rejected env b"
  with updatePricingCatalog_outcome [of env tbl]
  show "fst (updatePricingCatalog env tbl) = Inl StoreError"
    by (simp add: Let_def)
qed

lemma sample_feed_length:
  "length (fetchServicePricing steps_1_3_fail_env ''6F81-5844-456A'' ''Compute Engine'') = 1"
  "length (fetchServicePricing step_2_fails_env ''6F81-5844-456A'' ''Compute Engine'') = 1"
  by code_simp+

text \<open>
  C9 on the sample feed and a table with one active entry of an earlier date: with
  steps 1 and 3 rejected the table is left alone by both and the run succeeds with one
  record; with the insert rejected as well the run ends with the exception.
\<close>

theorem refresh_failure_policy_witness:
  "markExistingPricingInactive steps_1_3_fail_env 19800 [sample_gpu_entry] = [sample_gpu_entry]
   \<and> cleanupOldPricingData steps_1_3_fail_env [sample_gpu_entry] = [sample_gpu_entry]
   \<and> (\<exists>res. fst (updatePricingCatalog steps_1_3_fail_env [sample_gpu_entry]) = Inr res
         \<and> upd_success res \<and> records_updated res = 1)
   \<and> fst (updatePricingCatalog step_2_fails_env [sample_gpu_entry]) = Inl StoreError"
proof -
  have a: "update_rejected steps_1_3_fail_env" "delete_rejected steps_1_3_fail_env"
    "batch_rejected steps_1_3_fail_env = (\<lambda>b. False)"
    by (simp_all add: steps_1_3_fail_env_def)
  have b: "batch_rejected step_2_fails_env = (\<lambda>b. True)"
    by (simp add: step_2_fails_env_def)
  from refresh_failure_policy [of steps_1_3_fail_env 19800 "[sample_gpu_entry]"]
    refresh_failure_policy [of step_2_fails_env 19800 "[sample_gpu_entry]"] a b sample_feed_length
  show ?thesis by simp
qed

end
